theory Spec2Isabelle
  imports Complex_Main "HOL-Library.Log_Nat"
begin

section \<open>JavaScript values\<close>

text \<open>
  The routes of the service are JavaScript handlers over a document store. Their inputs
  are strings (path and query parameters) and JSON bodies; their outputs are a status and
  a payload. A JavaScript number is a double: a finite one is kept as the rational number
  it is, beside \<open>NaN\<close> and the two infinities, and the arithmetic of the handlers rounds
  each result to the nearest double. A string is the sequence of the bytes of its UTF-8
  encoding.
\<close>

datatype jsnum = NaN | NegInf | Fin rat | PosInf

datatype jsval =
    JNull
  | JBool bool
  | JNum jsnum
  | JStr string
  | JOid string
  | JArr "jsval list"
  | JObj "(string \<times> jsval) list"

type_synonym doc = "(string \<times> jsval) list"

text \<open>\<open>undefined\<close> is the absence of a value: \<open>None\<close> in \<open>jsval option\<close>.\<close>

datatype exn = TypeError string | BSONError string | MongoError string

datatype jstype = TUndefined | TObject | TBoolean | TNumber | TString

fun typeof :: "jsval option \<Rightarrow> jstype" where
  "typeof None = TUndefined"
| "typeof (Some (JBool b)) = TBoolean"
| "typeof (Some (JNum n)) = TNumber"
| "typeof (Some (JStr s)) = TString"
| "typeof (Some v) = TObject"

text \<open>Truthiness, as \<open>if (x)\<close> and \<open>!x\<close> read it.\<close>

fun truthy :: "jsval option \<Rightarrow> bool" where
  "truthy None = False"
| "truthy (Some JNull) = False"
| "truthy (Some (JBool b)) = b"
| "truthy (Some (JNum n)) = (n \<noteq> NaN \<and> n \<noteq> Fin 0)"
| "truthy (Some (JStr s)) = (s \<noteq> [])"
| "truthy (Some v) = True"

definition truthy_num :: "jsnum \<Rightarrow> bool" where
  "truthy_num n = truthy (Some (JNum n))"

definition isArray :: "jsval option \<Rightarrow> bool" where
  "isArray v = (case v of Some (JArr xs) \<Rightarrow> True | _ \<Rightarrow> False)"

text \<open>Property read \<open>o.k\<close> on a value that is not \<open>null\<close> or \<open>undefined\<close>.\<close>

definition getProp :: "jsval \<Rightarrow> string \<Rightarrow> jsval option" where
  "getProp v k = (case v of JObj d \<Rightarrow> map_of d k | _ \<Rightarrow> None)"

text \<open>Assignment \<open>o[k] = v\<close>: an existing key keeps its place, a new key goes last.\<close>

fun setField :: "string \<Rightarrow> jsval \<Rightarrow> doc \<Rightarrow> doc" where
  "setField k v [] = [(k, v)]"
| "setField k v (p # ps) = (if fst p = k then (k, v) # ps else p # setField k v ps)"

subsection \<open>Arithmetic and comparison of numbers\<close>

fun js_lt :: "jsnum \<Rightarrow> jsnum \<Rightarrow> bool" where
  "js_lt NaN b = False"
| "js_lt a NaN = False"
| "js_lt (Fin a) (Fin b) = (a < b)"
| "js_lt PosInf b = False"
| "js_lt a PosInf = True"
| "js_lt a NegInf = False"
| "js_lt NegInf b = True"

definition js_gt :: "jsnum \<Rightarrow> jsnum \<Rightarrow> bool" where
  "js_gt a b = js_lt b a"

definition js_le :: "jsnum \<Rightarrow> jsnum \<Rightarrow> bool" where
  "js_le a b = (a \<noteq> NaN \<and> b \<noteq> NaN \<and> (a = b \<or> js_lt a b))"

definition js_ge :: "jsnum \<Rightarrow> jsnum \<Rightarrow> bool" where
  "js_ge a b = js_le b a"

text \<open>Strict inequality \<open>a !== b\<close> of two numbers: \<open>NaN\<close> differs from itself.\<close>

definition js_neq :: "jsnum \<Rightarrow> jsnum \<Rightarrow> bool" where
  "js_neq a b = (a = NaN \<or> b = NaN \<or> a \<noteq> b)"

fun js_neg :: "jsnum \<Rightarrow> jsnum" where
  "js_neg NaN = NaN"
| "js_neg NegInf = PosInf"
| "js_neg PosInf = NegInf"
| "js_neg (Fin a) = Fin (- a)"

subsection \<open>Rounding to a double\<close>

text \<open>
  The binary exponent of a positive rational: \<open>2 ^ ilog2 x \<le> x < 2 ^ (ilog2 x + 1)\<close>.
\<close>

definition ilog2 :: "rat \<Rightarrow> int" where
  "ilog2 x = (if 1 \<le> x then bitlen \<lfloor>x\<rfloor> - 1 else - bitlen (\<lceil>1 / x\<rceil> - 1))"

text \<open>The nearest integer, a tie going to the even one.\<close>

definition round_half_even :: "rat \<Rightarrow> int" where
  "round_half_even y =
     (let f = \<lfloor>y\<rfloor>; r = y - of_int f
      in if r < 1 / 2 then f else if 1 / 2 < r then f + 1 else if even f then f else f + 1)"

text \<open>
  The doubles around a positive \<open>x\<close> are the multiples of \<open>2 ^ ulp_exp x\<close>: 53 significant
  bits, and no exponent below that of the subnormal numbers. The nearest of them is the
  double of \<open>x\<close>, unless it is \<open>2 ^ 1024\<close>, which is past the largest double and stands for
  \<open>Infinity\<close>. The sign of a zero is not kept.
\<close>

definition ulp_exp :: "rat \<Rightarrow> int" where
  "ulp_exp x = max (ilog2 x - 52) (- 1074)"

definition round_pos :: "rat \<Rightarrow> jsnum" where
  "round_pos x =
     (let u = ulp_exp x;
          v = of_int (round_half_even (x / 2 powi u)) * 2 powi u
      in if 2 ^ 1024 \<le> v then PosInf else Fin v)"

definition round_double :: "rat \<Rightarrow> jsnum" where
  "round_double x =
     (if x = 0 then Fin 0 else if x < 0 then js_neg (round_pos (- x)) else round_pos x)"

subsection \<open>The operators\<close>

fun js_add :: "jsnum \<Rightarrow> jsnum \<Rightarrow> jsnum" where
  "js_add NaN b = NaN"
| "js_add a NaN = NaN"
| "js_add (Fin a) (Fin b) = round_double (a + b)"
| "js_add PosInf NegInf = NaN"
| "js_add NegInf PosInf = NaN"
| "js_add PosInf b = PosInf"
| "js_add a PosInf = PosInf"
| "js_add NegInf b = NegInf"
| "js_add a NegInf = NegInf"

definition js_sub :: "jsnum \<Rightarrow> jsnum \<Rightarrow> jsnum" where
  "js_sub a b = js_add a (js_neg b)"

fun js_mul :: "jsnum \<Rightarrow> jsnum \<Rightarrow> jsnum" where
  "js_mul NaN b = NaN"
| "js_mul a NaN = NaN"
| "js_mul (Fin a) (Fin b) = round_double (a * b)"
| "js_mul (Fin a) PosInf = (if a = 0 then NaN else if 0 < a then PosInf else NegInf)"
| "js_mul (Fin a) NegInf = (if a = 0 then NaN else if 0 < a then NegInf else PosInf)"
| "js_mul PosInf (Fin b) = (if b = 0 then NaN else if 0 < b then PosInf else NegInf)"
| "js_mul NegInf (Fin b) = (if b = 0 then NaN else if 0 < b then NegInf else PosInf)"
| "js_mul PosInf PosInf = PosInf"
| "js_mul NegInf NegInf = PosInf"
| "js_mul PosInf NegInf = NegInf"
| "js_mul NegInf PosInf = NegInf"

text \<open>Division; a zero divisor is \<open>+0\<close> (the divisors of the source are parsed from digits).\<close>

fun js_div :: "jsnum \<Rightarrow> jsnum \<Rightarrow> jsnum" where
  "js_div NaN b = NaN"
| "js_div a NaN = NaN"
| "js_div (Fin a) (Fin b) =
     (if b \<noteq> 0 then round_double (a / b)
      else if 0 < a then PosInf else if a < 0 then NegInf else NaN)"
| "js_div (Fin a) b = Fin 0"
| "js_div PosInf (Fin b) = (if 0 \<le> b then PosInf else NegInf)"
| "js_div NegInf (Fin b) = (if 0 \<le> b then NegInf else PosInf)"
| "js_div a b = NaN"

fun js_ceil :: "jsnum \<Rightarrow> jsnum" where
  "js_ceil (Fin a) = Fin (of_int \<lceil>a\<rceil>)"
| "js_ceil a = a"

text \<open>
  The number of a count: the length of an array, the size of a collection, the clock.
  Counts are far below \<open>2 ^ 53\<close>, where every whole number is a double.
\<close>

definition num :: "nat \<Rightarrow> jsnum" where
  "num n = Fin (of_nat n)"

subsection \<open>Digit strings\<close>

definition isDigit :: "char \<Rightarrow> bool" where
  "isDigit c = (c \<in> set ''0123456789'')"

text \<open>The test \<open>/^\d+$/.test(s)\<close>: one or more characters, all of them \<open>0\<close> to \<open>9\<close>.\<close>

definition isNumeric :: "string \<Rightarrow> bool" where
  "isNumeric s = (s \<noteq> [] \<and> list_all isDigit s)"

definition digit_val :: "char \<Rightarrow> nat" where
  "digit_val c = length (takeWhile (\<lambda>d. d \<noteq> c) ''0123456789'')"

definition decimal :: "string \<Rightarrow> int" where
  "decimal s = foldl (\<lambda>n c. 10 * n + int (digit_val c)) 0 s"

text \<open>
  \<open>parseInt\<close> of a string that starts with a digit or has none: the double nearest to the
  value of the leading digits, \<open>NaN\<close> without a leading digit. (Leading white space, a sign
  and a \<open>0x\<close> prefix are left out: every string the handlers parse has passed the digit
  test.)
\<close>

definition parseInt :: "string \<Rightarrow> jsnum" where
  "parseInt s =
     (let ds = takeWhile isDigit s
      in if ds = [] then NaN else round_double (of_int (decimal ds)))"

text \<open>
  \<open>parseInt\<close> of a number parses the string of the number. Below \<open>10 ^ 21\<close> that string
  is a decimal numeral, and its whole part comes back. From \<open>10 ^ 21\<close> on it is in
  exponent notation, a digit first, and only that digit is parsed: the first digit of the
  shortest decimal that is read back as the same double. That is the first digit of the
  largest whole number that still rounds to the double (half a unit in the last place
  above it, counted in when the significand is even). \<open>Infinity\<close> and \<open>NaN\<close> have no
  digit to parse. (Not for a fraction smaller than \<open>10 ^ -6\<close>, whose string is in exponent
  notation too.)
\<close>

function lead_digit :: "int \<Rightarrow> int" where
  "lead_digit n = (if n < 10 then n else lead_digit (n div 10))"
  by pat_completeness auto

termination lead_digit
  by (relation "measure nat") auto

declare lead_digit.simps [simp del]

definition shortest_upper :: "rat \<Rightarrow> int" where
  "shortest_upper v =
     (let u = ulp_exp v; m = \<lfloor>v / 2 powi u\<rfloor>; h = \<lfloor>v + 2 powi (u - 1)\<rfloor>
      in if even m then h else h - 1)"

definition digits_value :: "rat \<Rightarrow> jsnum" where
  "digits_value v =
     (if v < 10 ^ 21 then Fin (of_int \<lfloor>v\<rfloor>)
      else Fin (of_int (lead_digit (shortest_upper v))))"

definition parseInt_num :: "jsnum \<Rightarrow> jsnum" where
  "parseInt_num x =
     (case x of
        Fin v \<Rightarrow> if v < 0 then js_neg (digits_value (- v)) else digits_value v
      | _ \<Rightarrow> NaN)"

section \<open>The document store\<close>

record db =
  db_users :: "doc list"
  db_movies :: "doc list"
  db_cinemas :: "doc list"

text \<open>
  The order of BSON values that \<open>sort\<close> uses, for the kinds of value the collections
  hold under a sort key: null and missing first, then numbers, strings, documents, arrays,
  object identifiers and booleans. Two documents or two arrays compare as equal here.
\<close>

fun str_le :: "string \<Rightarrow> string \<Rightarrow> bool" where
  "str_le [] ys = True"
| "str_le (x # xs) [] = False"
| "str_le (x # xs) (y # ys) =
     (if x = y then str_le xs ys else (of_char x :: nat) < of_char y)"

fun bson_rank :: "jsval option \<Rightarrow> nat" where
  "bson_rank None = 0"
| "bson_rank (Some JNull) = 0"
| "bson_rank (Some (JNum n)) = 1"
| "bson_rank (Some (JStr s)) = 2"
| "bson_rank (Some (JObj d)) = 3"
| "bson_rank (Some (JArr xs)) = 4"
| "bson_rank (Some (JOid h)) = 5"
| "bson_rank (Some (JBool b)) = 6"

fun bson_num_le :: "jsnum \<Rightarrow> jsnum \<Rightarrow> bool" where
  "bson_num_le NaN b = True"
| "bson_num_le a NaN = False"
| "bson_num_le a b = (a = b \<or> js_lt a b)"

fun bson_le :: "jsval option \<Rightarrow> jsval option \<Rightarrow> bool" where
  "bson_le (Some (JNum a)) (Some (JNum b)) = bson_num_le a b"
| "bson_le (Some (JStr a)) (Some (JStr b)) = str_le a b"
| "bson_le (Some (JOid a)) (Some (JOid b)) = str_le a b"
| "bson_le (Some (JBool a)) (Some (JBool b)) = (a \<longrightarrow> b)"
| "bson_le a b = (bson_rank a \<le> bson_rank b)"

text \<open>A stable insertion sort by a key, under a given order of the keys.\<close>

fun insort_by :: "('k \<Rightarrow> 'k \<Rightarrow> bool) \<Rightarrow> ('a \<Rightarrow> 'k) \<Rightarrow> 'a \<Rightarrow> 'a list \<Rightarrow> 'a list" where
  "insort_by le f x [] = [x]"
| "insort_by le f x (y # ys) =
     (if le (f x) (f y) then x # y # ys else y # insort_by le f x ys)"

definition sort_by :: "('k \<Rightarrow> 'k \<Rightarrow> bool) \<Rightarrow> ('a \<Rightarrow> 'k) \<Rightarrow> 'a list \<Rightarrow> 'a list" where
  "sort_by le f xs = foldr (insort_by le f) xs []"

definition sort_asc :: "(doc \<Rightarrow> jsval option) \<Rightarrow> doc list \<Rightarrow> doc list" where
  "sort_asc f ds = sort_by bson_le f ds"

definition sort_desc :: "(doc \<Rightarrow> jsval option) \<Rightarrow> doc list \<Rightarrow> doc list" where
  "sort_desc f ds = sort_by (\<lambda>a b. bson_le b a) f ds"

text \<open>\<open>cursor.limit(n)\<close>: a limit of \<open>0\<close> is no limit.\<close>

definition limit_docs :: "nat \<Rightarrow> 'a list \<Rightarrow> 'a list" where
  "limit_docs n ds = (if n = 0 then ds else take n ds)"

section \<open>Responses\<close>

text \<open>
  The messages of the source are Portuguese sentences, some with the position or the
  identifier of the offending item spliced in; each is a constructor here, with what the
  source splices in as its arguments.
\<close>

datatype verr =
    NameInvalid | GenderInvalid | AgeInvalid | OccupationInvalid | MoviesNotArray
  | ItemNotObject nat | MovieidInvalid nat | MovieNotExist jsval | RatingInvalid nat
  | ExtraFields nat "string list"
  | NameNotString | GenderNotMF | AgeNotPositive | OccupationNotString | MoviesMustBeArray
  | MovieidNotPositive nat | RatingNotInRange nat
  | TitleInvalid | YearInvalid | GenresInvalid | GenreNotString
  | GenreNotValid string "jsval list"
  | TitleNotString | YearNotValid | GenresNotArray | GenresEmpty

datatype errmsg =
    PageLimitNotInteger | PageNotExist
  | DataMustBeArray | DataMustBeObject | NoValidFields
  | InvalidUserData | InvalidUserId | UserNotFound | UserNotExist
  | InvalidMovieData | InvalidMovieId | MovieNotFound | MovieNotExists
  | GenreYearRequired | GenreYearFormat | GenreNotFound | YearOutOfRange | NoMovieMatches
  | CinemaNotFound | BodyNeedsMovies | BodyMoviesNotArray | MoviesNotFound
  | LatLngRequired | LatLngRequiredBoth | NoCinemasNear | NoCinemasOnLine
  | LatLngMustBeGiven | NotInFestival | PointCheckFailed
  | UpdateFailed | ListFailed
  | Failed exn

datatype okmsg = UsersAdded | UserDeleted | UserUpdated | MoviesAdded | MovieDeleted | MovieUpdated

datatype store_result = Inserted nat | Deleted nat | Updated nat

datatype payload =
    Json jsval
  | Error errmsg
  | ErrorDetails errmsg "(nat \<times> verr list) list"
  | ErrorFields errmsg "verr list"
  | ErrorGenres errmsg "jsval list"
  | Result okmsg store_result
  | Added "jsval list"

datatype reply =
    Redirect string
  | Send nat payload

fun status_of :: "reply \<Rightarrow> nat" where
  "status_of (Redirect u) = 302"
| "status_of (Send s b) = s"

section \<open>Paginated listing\<close>

text \<open>
  \<open>GET /users\<close>, \<open>GET /movies\<close> and \<open>GET /cinemas\<close> are the same handler up to the
  collection, the redirect path, the key of the items (\<open>users\<close>, \<open>filmes\<close>, \<open>cinemas\<close>),
  the limit handed to the store and the message of a failure. A query parameter is absent
  (\<open>None\<close>) or a string.

  The page itself, \<open>find({}).sort({_id: 1}).skip(a).limit(b).toArray()\<close>, is answered by
  the driver and the store, which are not part of the handlers: it is a parameter, a
  function of the collection and the two numbers that answers with documents or throws.
\<close>

type_synonym cursor = "doc list \<Rightarrow> jsnum \<Rightarrow> jsnum \<Rightarrow> exn + doc list"

definition present :: "string option \<Rightarrow> bool" where
  "present q = (case q of None \<Rightarrow> False | Some s \<Rightarrow> s \<noteq> [])"

definition totalPages_of :: "nat \<Rightarrow> jsnum \<Rightarrow> jsnum" where
  "totalPages_of totalDocs limit = js_ceil (js_div (num totalDocs) limit)"

definition list_route :: "string \<Rightarrow> string \<Rightarrow> (jsnum \<Rightarrow> jsnum) \<Rightarrow> (exn \<Rightarrow> errmsg) \<Rightarrow> cursor
    \<Rightarrow> doc list \<Rightarrow> string option \<Rightarrow> string option \<Rightarrow> reply" where
  "list_route path key limit_arg failure cur coll qpage qlimit =
     (if \<not> present qpage \<or> \<not> present qlimit then Redirect (path @ ''?page=1&limit=10'')
      else
        let pg = (case qpage of Some s \<Rightarrow> s | None \<Rightarrow> []);
            lm = (case qlimit of Some s \<Rightarrow> s | None \<Rightarrow> [])
        in if \<not> isNumeric pg \<or> \<not> isNumeric lm then Send 400 (Error PageLimitNotInteger)
        else
          let page = parseInt pg;
              limit = parseInt lm;
              totalDocs = length coll;
              totalPages = totalPages_of totalDocs limit
          in if js_lt page (num 1) \<or> js_gt page totalPages
             then Send 404 (Error PageNotExist)
             else
               let currentPage = page
               in case cur coll (js_mul (js_sub currentPage (num 1)) limit) (limit_arg limit) of
                    Inl e \<Rightarrow> Send 500 (Error (failure e))
                  | Inr results \<Rightarrow>
                      let currentPageDocs = length results;
                          prevPage = (if js_gt currentPage (num 1)
                                      then js_sub currentPage (num 1) else num 0);
                          nextPage = (if js_lt currentPage totalPages
                                      then js_add currentPage (num 1)
                                      else js_add totalPages (num 1));
                          response = [(key, JArr (map JObj results)),
                                      (''totalDocs'', JNum (num totalDocs)),
                                      (''currentPageDocs'', JNum (num currentPageDocs)),
                                      (''totalPages'', JNum totalPages),
                                      (''currentPage'', JNum currentPage)];
                          response1 = (if js_neq prevPage (num 0)
                                       then setField ''prevPage'' (JNum prevPage) response
                                       else response);
                          response2 = (if js_neq nextPage (js_add totalPages (num 1))
                                       then setField ''nextPage'' (JNum nextPage) response1
                                       else response1)
                      in Send 200 (Json (JObj response2)))"

datatype resource = Users | Movies | Cinemas


text \<open>
  The movies handler hands its limit to the store as it is; the other two hand over
  \<open>parseInt(limit)\<close>, the limit parsed once more.
\<close>

fun limit_of :: "resource \<Rightarrow> jsnum \<Rightarrow> jsnum" where
  "limit_of Users limit = parseInt_num limit"
| "limit_of Movies limit = limit"
| "limit_of Cinemas limit = parseInt_num limit"

definition get_users :: "cursor \<Rightarrow> db \<Rightarrow> string option \<Rightarrow> string option \<Rightarrow> reply" where
  "get_users cur s qpage qlimit =
     list_route ''/users'' ''users'' (limit_of Users) Failed cur (db_users s) qpage qlimit"

definition get_movies :: "cursor \<Rightarrow> db \<Rightarrow> string option \<Rightarrow> string option \<Rightarrow> reply" where
  "get_movies cur s qpage qlimit =
     list_route ''/movies'' ''filmes'' (limit_of Movies) Failed cur (db_movies s) qpage qlimit"

definition get_cinemas :: "cursor \<Rightarrow> db \<Rightarrow> string option \<Rightarrow> string option \<Rightarrow> reply" where
  "get_cinemas cur s qpage qlimit =
     list_route ''/cinemas'' ''cinemas'' (limit_of Cinemas) (\<lambda>e. ListFailed) cur (db_cinemas s)
       qpage qlimit"

fun get_list :: "resource \<Rightarrow> cursor \<Rightarrow> db \<Rightarrow> string option \<Rightarrow> string option \<Rightarrow> reply" where
  "get_list Users cur s = get_users cur s"
| "get_list Movies cur s = get_movies cur s"
| "get_list Cinemas cur s = get_cinemas cur s"

text \<open>
  A cursor for the examples. It answers a whole number to skip and a whole limit as the
  store does: the documents in the order of \<open>_id\<close>, without the skipped ones, up to the
  limit. Any other number it refuses.
\<close>

definition whole :: "jsnum \<Rightarrow> nat option" where
  "whole x =
     (case x of
        Fin v \<Rightarrow> if 0 \<le> v \<and> v = of_int \<lfloor>v\<rfloor> then Some (nat \<lfloor>v\<rfloor>) else None
      | _ \<Rightarrow> None)"

definition find_sorted :: cursor where
  "find_sorted coll skip limit =
     (case (whole skip, whole limit) of
        (Some a, Some b) \<Rightarrow> Inr (limit_docs b (drop a (sort_asc (\<lambda>d. map_of d ''_id'') coll)))
      | _ \<Rightarrow> Inl (MongoError ''skip and limit must be whole numbers''))"

section \<open>Store operations\<close>

text \<open>
  An equality condition \<open>{field: v}\<close> of a query holds of a document whose field is \<open>v\<close>
  or is an array with \<open>v\<close> among its elements; a missing field matches \<open>null\<close> only.
  (A condition whose value is an object of query operators is not modelled.)
\<close>

fun eq_match :: "jsval \<Rightarrow> jsval option \<Rightarrow> bool" where
  "eq_match v None = (v = JNull)"
| "eq_match v (Some (JArr xs)) = (JArr xs = v \<or> v \<in> set xs)"
| "eq_match v (Some w) = (w = v)"

definition findOne_id :: "doc list \<Rightarrow> jsval \<Rightarrow> doc option" where
  "findOne_id coll v = find (\<lambda>d. eq_match v (map_of d ''_id'')) coll"

text \<open>
  \<open>insertMany\<close> refuses an empty batch; otherwise every document gets a fresh object
  identifier, \<open>gen i\<close> for the \<open>i\<close>-th document of the batch, and joins the collection.
\<close>

definition insertMany :: "(nat \<Rightarrow> string) \<Rightarrow> doc list \<Rightarrow> doc list \<Rightarrow> exn + store_result \<times> doc list" where
  "insertMany gen coll docs =
     (if docs = [] then Inl (MongoError ''Invalid BulkOperation, Batch cannot be empty'')
      else Inr (Inserted (length docs),
                coll @ map (\<lambda>(i, d). (''_id'', JOid (gen i)) # d) (zip [0..<length docs] docs)))"

text \<open>\<open>updateOne({_id: v}, {$set: body})\<close> and \<open>deleteOne({_id: v})\<close> act on the first match.\<close>

definition set_fields :: "doc \<Rightarrow> doc \<Rightarrow> doc" where
  "set_fields body d = foldl (\<lambda>acc (k, x). setField k x acc) d body"

fun updateOne_set :: "jsval \<Rightarrow> doc \<Rightarrow> doc list \<Rightarrow> doc list" where
  "updateOne_set v body [] = []"
| "updateOne_set v body (d # ds) =
     (if eq_match v (map_of d ''_id'') then set_fields body d # ds
      else d # updateOne_set v body ds)"

fun deleteOne :: "jsval \<Rightarrow> doc list \<Rightarrow> doc list" where
  "deleteOne v [] = []"
| "deleteOne v (d # ds) =
     (if eq_match v (map_of d ''_id'') then ds else d # deleteOne v ds)"

text \<open>
  \<open>distinct('genres')\<close>: the values of the field over the collection, an array field
  contributing each of its elements, without repetition.
\<close>

definition field_values :: "string \<Rightarrow> doc \<Rightarrow> jsval list" where
  "field_values k d =
     (case map_of d k of None \<Rightarrow> [] | Some (JArr xs) \<Rightarrow> xs | Some v \<Rightarrow> [v])"

definition field_one :: "string \<Rightarrow> doc \<Rightarrow> jsval list" where
  "field_one k d = (case map_of d k of None \<Rightarrow> [] | Some v \<Rightarrow> [v])"

definition distinct_field :: "string \<Rightarrow> doc list \<Rightarrow> jsval list" where
  "distinct_field k coll = remdups (concat (map (field_values k) coll))"

section \<open>Identifier resolver\<close>

definition isHex :: "char \<Rightarrow> bool" where
  "isHex c = (c \<in> set ''0123456789abcdefABCDEF'')"

text \<open>
  \<open>ObjectId.isValid\<close> on a string, as the specification has it: a string of 24
  hexadecimal characters. The identifier made from it does not keep the case of the digits.
\<close>

definition ObjectId_isValid :: "string \<Rightarrow> bool" where
  "ObjectId_isValid s = (length s = 24 \<and> list_all isHex s)"

definition hex_lower :: "char \<Rightarrow> char" where
  "hex_lower c = (case map_of (zip ''ABCDEF'' ''abcdef'') c of Some l \<Rightarrow> l | None \<Rightarrow> c)"

definition new_ObjectId :: "string \<Rightarrow> exn + jsval" where
  "new_ObjectId s =
     (if ObjectId_isValid s then Inr (JOid (map hex_lower s))
      else Inl (BSONError ''input must be a 24 character hex string''))"

text \<open>\<open>checkId\<close>: \<open>None\<close> is the \<open>null\<close> of an invalid identifier.\<close>

definition checkId :: "string \<Rightarrow> jsval option" where
  "checkId ident =
     (if isNumeric ident then Some (JNum (parseInt ident))
      else if ObjectId_isValid ident then Some (JOid (map hex_lower ident))
      else None)"

section \<open>Users: validation and normalisation\<close>

text \<open>
  \<open>o.hasOwnProperty(f)\<close> on a parsed JSON value: \<open>null\<close> has no properties, and an
  object that carries a key \<open>hasOwnProperty\<close> of its own shadows the method with a value
  that cannot be called.
\<close>

definition filterFields :: "string list \<Rightarrow> jsval \<Rightarrow> exn + doc" where
  "filterFields allowed v =
     (case v of
        JNull \<Rightarrow> Inl (TypeError ''Cannot read properties of null'')
      | JObj d \<Rightarrow>
          (if map_of d ''hasOwnProperty'' \<noteq> None
           then Inl (TypeError ''hasOwnProperty is not a function'')
           else Inr (concat (map (\<lambda>f. case map_of d f of None \<Rightarrow> [] | Some x \<Rightarrow> [(f, x)])
                              allowed)))
      | _ \<Rightarrow> Inr [])"

definition filterValidFields_user :: "jsval \<Rightarrow> exn + doc" where
  "filterValidFields_user user =
     filterFields [''name'', ''gender'', ''age'', ''occupation'', ''movies''] user"

definition isSpace :: "char \<Rightarrow> bool" where
  "isSpace c = (c \<in> set [CHR '' '', CHR 0x09, CHR 0x0A, CHR 0x0B, CHR 0x0C, CHR 0x0D])"

text \<open>
  What \<open>trim\<close> removes besides the six characters of ASCII: the no-break space
  (\<open>U+00A0\<close>), and the three-byte characters \<open>U+1680\<close>, \<open>U+2000\<close> to \<open>U+200A\<close>, the
  line and paragraph separators \<open>U+2028\<close> and \<open>U+2029\<close>, \<open>U+202F\<close>, \<open>U+205F\<close>,
  \<open>U+3000\<close> and the byte order mark \<open>U+FEFF\<close>.
\<close>

definition isSpace2 :: "char \<Rightarrow> char \<Rightarrow> bool" where
  "isSpace2 a b = (a = CHR 0xC2 \<and> b = CHR 0xA0)"

definition isSpace3 :: "char \<Rightarrow> char \<Rightarrow> char \<Rightarrow> bool" where
  "isSpace3 a b c =
     ((a = CHR 0xE1 \<and> b = CHR 0x9A \<and> c = CHR 0x80)
    \<or> (a = CHR 0xE2 \<and> b = CHR 0x80
        \<and> ((0x80 \<le> (of_char c :: nat) \<and> (of_char c :: nat) \<le> 0x8A)
           \<or> c = CHR 0xA8 \<or> c = CHR 0xA9 \<or> c = CHR 0xAF))
    \<or> (a = CHR 0xE2 \<and> b = CHR 0x81 \<and> c = CHR 0x9F)
    \<or> (a = CHR 0xE3 \<and> b = CHR 0x80 \<and> c = CHR 0x80)
    \<or> (a = CHR 0xEF \<and> b = CHR 0xBB \<and> c = CHR 0xBF))"

text \<open>\<open>!s.trim()\<close>: nothing is left of the string once its white space is trimmed.\<close>

fun blank :: "string \<Rightarrow> bool" where
  "blank [] = True"
| "blank [a] = isSpace a"
| "blank [a, b] = (if isSpace a then isSpace b else isSpace2 a b)"
| "blank (a # b # c # s) =
     (if isSpace a then blank (b # c # s)
      else if isSpace2 a b then blank (c # s)
      else isSpace3 a b c \<and> blank s)"

definition str_of :: "jsval option \<Rightarrow> string" where
  "str_of v = (case v of Some (JStr s) \<Rightarrow> s | _ \<Rightarrow> [])"

definition num_of :: "jsval option \<Rightarrow> jsnum" where
  "num_of v = (case v of Some (JNum n) \<Rightarrow> n | _ \<Rightarrow> NaN)"

text \<open>The keys that \<open>for (const key in o)\<close> visits and that \<open>{...o}\<close> copies.\<close>

fun digit_char :: "nat \<Rightarrow> char" where
  "digit_char n = ''0123456789'' ! (n mod 10)"

fun show_nat_fuel :: "nat \<Rightarrow> nat \<Rightarrow> string" where
  "show_nat_fuel 0 n = [digit_char n]"
| "show_nat_fuel (Suc k) n =
     (if n < 10 then [digit_char n] else show_nat_fuel k (n div 10) @ [digit_char n])"

definition show_nat :: "nat \<Rightarrow> string" where
  "show_nat n = show_nat_fuel n n"

definition own_entries :: "jsval \<Rightarrow> doc" where
  "own_entries v =
     (case v of
        JObj d \<Rightarrow> d
      | JArr xs \<Rightarrow> map (\<lambda>(i, x). (show_nat i, x)) (zip [0..<length xs] xs)
      | JStr s \<Rightarrow> map (\<lambda>(i, c). (show_nat i, JStr [c])) (zip [0..<length s] s)
      | _ \<Rightarrow> [])"

definition extraFields :: "jsval \<Rightarrow> string list" where
  "extraFields movie =
     filter (\<lambda>key. key \<noteq> ''movieid'' \<and> key \<noteq> ''rating'') (map fst (own_entries movie))"

definition is_object :: "jsval \<Rightarrow> bool" where
  "is_object v = (typeof (Some v) = TObject \<and> v \<noteq> JNull)"

text \<open>One pass of the loop of \<open>validateUser\<close> over the rating entries.\<close>

definition validateRating :: "doc list \<Rightarrow> nat \<Rightarrow> jsval \<Rightarrow> verr list" where
  "validateRating ms i movie =
     (if \<not> is_object movie then [ItemNotObject i]
      else
        let movieid = getProp movie ''movieid''; rating = getProp movie ''rating'' in
        (if \<not> truthy movieid \<or> typeof movieid \<noteq> TNumber \<or> js_le (num_of movieid) (num 0)
         then [MovieidInvalid i] else [])
      @ (if truthy movieid \<and> typeof movieid = TNumber \<and> js_gt (num_of movieid) (num 0)
         then (if findOne_id ms (JNum (num_of movieid)) = None
               then [MovieNotExist (JNum (num_of movieid))] else [])
         else [])
      @ (if \<not> truthy rating \<or> typeof rating \<noteq> TNumber \<or> js_lt (num_of rating) (num 1)
            \<or> js_gt (num_of rating) (num 5)
         then [RatingInvalid i] else [])
      @ (if extraFields movie \<noteq> [] then [ExtraFields i (extraFields movie)] else []))"

definition validateUser :: "doc list \<Rightarrow> doc \<Rightarrow> verr list" where
  "validateUser ms user =
     (let name = map_of user ''name''; gender = map_of user ''gender'';
          age = map_of user ''age''; occupation = map_of user ''occupation'';
          movies = map_of user ''movies''
      in (if \<not> truthy name \<or> typeof name \<noteq> TString \<or> blank (str_of name)
          then [NameInvalid] else [])
       @ (if \<not> truthy gender \<or> typeof gender \<noteq> TString
             \<or> (gender \<noteq> Some (JStr ''F'') \<and> gender \<noteq> Some (JStr ''M''))
          then [GenderInvalid] else [])
       @ (if \<not> truthy age \<or> typeof age \<noteq> TNumber \<or> js_le (num_of age) (num 0)
          then [AgeInvalid] else [])
       @ (if \<not> truthy occupation \<or> typeof occupation \<noteq> TString \<or> blank (str_of occupation)
          then [OccupationInvalid] else [])
       @ (if truthy movies
          then (case movies of
                  Some (JArr xs) \<Rightarrow>
                    concat (map (\<lambda>(i, m). validateRating ms i m) (zip [0..<length xs] xs))
                | _ \<Rightarrow> [MoviesNotArray])
          else []))"

text \<open>One pass of the loop of \<open>validateUserToUpdate\<close> over the rating entries.\<close>

definition validateRatingToUpdate :: "doc list \<Rightarrow> nat \<Rightarrow> jsval \<Rightarrow> verr list" where
  "validateRatingToUpdate ms i movie =
     (if \<not> is_object movie then [ItemNotObject i]
      else
        let movieid = getProp movie ''movieid''; rating = getProp movie ''rating'' in
        (if typeof movieid \<noteq> TNumber \<or> js_le (num_of movieid) (num 0)
         then [MovieidNotPositive i] else [])
      @ (case movieid of
           Some mid \<Rightarrow>
             (if truthy movieid \<and> findOne_id ms mid = None then [MovieNotExist mid] else [])
         | None \<Rightarrow> [])
      @ (if typeof rating \<noteq> TNumber \<or> js_lt (num_of rating) (num 1)
            \<or> js_gt (num_of rating) (num 5)
         then [RatingNotInRange i] else [])
      @ (if extraFields movie \<noteq> [] then [ExtraFields i (extraFields movie)] else []))"

definition validateUserToUpdate :: "doc list \<Rightarrow> doc \<Rightarrow> verr list" where
  "validateUserToUpdate ms user =
     (let name = map_of user ''name''; gender = map_of user ''gender'';
          age = map_of user ''age''; occupation = map_of user ''occupation'';
          movies = map_of user ''movies''
      in (if truthy name \<and> typeof name \<noteq> TString then [NameNotString] else [])
       @ (if truthy gender \<and> gender \<noteq> Some (JStr ''M'') \<and> gender \<noteq> Some (JStr ''F'')
          then [GenderNotMF] else [])
       @ (if truthy age \<and> (typeof age \<noteq> TNumber \<or> js_lt (num_of age) (num 0))
          then [AgeNotPositive] else [])
       @ (if truthy occupation \<and> typeof occupation \<noteq> TString
          then [OccupationNotString] else [])
       @ (if truthy movies
          then (case movies of
                  Some (JArr xs) \<Rightarrow>
                    concat (map (\<lambda>(i, m). validateRatingToUpdate ms i m)
                              (zip [0..<length xs] xs))
                | _ \<Rightarrow> [MoviesMustBeArray])
          else []))"

text \<open>
  The clock of a request: \<open>Date.now()\<close> in milliseconds and the ISO-8601 text of the same
  instant.
\<close>

record clock =
  now_ms :: nat
  now_iso :: string

text \<open>\<open>addTimestampAndDate\<close>: \<open>movies.map\<close> exists on an array only.\<close>

definition addTimestampAndDate :: "clock \<Rightarrow> jsval \<Rightarrow> exn + jsval list" where
  "addTimestampAndDate clk movies =
     (let currentTimestamp = now_ms clk div 1000; currentDate = now_iso clk in
      case movies of
        JArr xs \<Rightarrow>
          Inr (map (\<lambda>movie. JObj (setField ''date'' (JStr currentDate)
                                   (setField ''timestamp'' (JNum (num currentTimestamp))
                                      (own_entries movie)))) xs)
      | _ \<Rightarrow> Inl (TypeError ''movies.map is not a function''))"

section \<open>Users: handlers\<close>

text \<open>
  What the loop of \<open>POST /users\<close> does to a validated user: stamp the ratings and count
  them, or default to no ratings.
\<close>

definition stampUser :: "clock \<Rightarrow> doc \<Rightarrow> exn + doc" where
  "stampUser clk user =
     (case map_of user ''movies'' of
        Some m \<Rightarrow>
          (if truthy (Some m)
           then (case addTimestampAndDate clk m of
                   Inl e \<Rightarrow> Inl e
                 | Inr ms \<Rightarrow>
                     Inr (setField ''num_ratings'' (JNum (num (length ms)))
                            (setField ''movies'' (JArr ms) user)))
           else Inr (setField ''num_ratings'' (JNum (num 0))
                       (setField ''movies'' (JArr []) user)))
      | None \<Rightarrow>
          Inr (setField ''num_ratings'' (JNum (num 0)) (setField ''movies'' (JArr []) user)))"

text \<open>
  The loop over the body of \<open>POST /users\<close>, from index \<open>i\<close> on: the per-index errors and
  the documents that replace the elements of the body. An exception ends the loop.
\<close>

fun users_loop :: "clock \<Rightarrow> doc list \<Rightarrow> nat \<Rightarrow> jsval list
    \<Rightarrow> exn + (nat \<times> verr list) list \<times> doc list" where
  "users_loop clk ms i [] = Inr ([], [])"
| "users_loop clk ms i (u # us) =
     (case filterValidFields_user u of
        Inl e \<Rightarrow> Inl e
      | Inr user \<Rightarrow>
          (let errors = validateUser ms user in
           case stampUser clk user of
             Inl e \<Rightarrow> Inl e
           | Inr user' \<Rightarrow>
               (case users_loop clk ms (Suc i) us of
                  Inl e \<Rightarrow> Inl e
                | Inr (errorsArray, docs) \<Rightarrow>
                    Inr ((if errors \<noteq> [] then [(i, errors)] else []) @ errorsArray,
                         user' # docs))))"

definition post_users :: "clock \<Rightarrow> (nat \<Rightarrow> string) \<Rightarrow> db \<Rightarrow> jsval \<Rightarrow> reply \<times> db" where
  "post_users clk gen s body =
     (case body of
        JArr users \<Rightarrow>
          (case users_loop clk (db_movies s) 0 users of
             Inl e \<Rightarrow> (Send 500 (Error (Failed e)), s)
           | Inr (errorsArray, docs) \<Rightarrow>
               (if errorsArray \<noteq> [] then (Send 400 (ErrorDetails InvalidUserData errorsArray), s)
                else (case insertMany gen (db_users s) docs of
                        Inl e \<Rightarrow> (Send 500 (Error (Failed e)), s)
                      | Inr (results, coll) \<Rightarrow>
                          (Send 201 (Result UsersAdded results), s\<lparr>db_users := coll\<rparr>))))
      | _ \<Rightarrow> (Send 400 (Error DataMustBeArray), s))"

text \<open>
  The length of a string counts the code units of UTF-16: one for each character of up to
  three bytes, two for each character of four.
\<close>

definition utf16_length :: "string \<Rightarrow> nat" where
  "utf16_length s =
     length (filter (\<lambda>c. (of_char c :: nat) < 0x80 \<or> 0xC0 \<le> (of_char c :: nat)) s)
     + length (filter (\<lambda>c. 0xF0 \<le> (of_char c :: nat)) s)"

text \<open>The property \<open>length\<close> of a stored value; reading it off \<open>null\<close> or nothing throws.\<close>

definition js_length :: "jsval option \<Rightarrow> exn + jsval option" where
  "js_length v =
     (case v of
        None \<Rightarrow> Inl (TypeError ''Cannot read properties of undefined'')
      | Some JNull \<Rightarrow> Inl (TypeError ''Cannot read properties of null'')
      | Some (JArr xs) \<Rightarrow> Inr (Some (JNum (num (length xs))))
      | Some (JStr s) \<Rightarrow> Inr (Some (JNum (num (utf16_length s))))
      | Some (JObj d) \<Rightarrow> Inr (map_of d ''length'')
      | Some _ \<Rightarrow> Inr None)"

text \<open>An object literal: a member whose value is \<open>undefined\<close> is not sent.\<close>

definition obj_lit :: "(string \<times> jsval option) list \<Rightarrow> doc" where
  "obj_lit kvs = concat (map (\<lambda>(k, v). case v of None \<Rightarrow> [] | Some x \<Rightarrow> [(k, x)]) kvs)"

subsection \<open>Stages of an aggregation pipeline\<close>

definition match_id :: "jsval \<Rightarrow> doc list \<Rightarrow> doc list" where
  "match_id v ds = filter (\<lambda>d. eq_match v (map_of d ''_id'')) ds"

text \<open>\<open>$unwind\<close>: one document per element of the array; none for a missing, null or empty one.\<close>

definition unwind :: "string \<Rightarrow> doc list \<Rightarrow> doc list" where
  "unwind k ds =
     concat (map (\<lambda>d. case map_of d k of
                         None \<Rightarrow> []
                       | Some JNull \<Rightarrow> []
                       | Some (JArr xs) \<Rightarrow> map (\<lambda>x. setField k x d) xs
                       | Some v \<Rightarrow> [d]) ds)"

text \<open>The value at a path \<open>a.b\<close> of a document whose field \<open>a\<close> is an embedded document.\<close>

definition path2 :: "string \<Rightarrow> string \<Rightarrow> doc \<Rightarrow> jsval option" where
  "path2 a b d = (case map_of d a of Some (JObj e) \<Rightarrow> map_of e b | _ \<Rightarrow> None)"

definition id_of :: "doc \<Rightarrow> jsval" where
  "id_of d = (case map_of d ''_id'' of None \<Rightarrow> JNull | Some v \<Rightarrow> v)"

text \<open>
  \<open>$group\<close> by \<open>_id\<close> with \<open>{$push: "$src"}\<close>: a group has its key and the pushed array,
  and nothing else of the documents it was made from.
\<close>

definition group_push :: "string \<Rightarrow> string \<Rightarrow> doc list \<Rightarrow> doc list" where
  "group_push out src ds =
     map (\<lambda>k. [(''_id'', k),
                (out, JArr (concat (map (\<lambda>d. if id_of d = k then field_one src d else []) ds)))])
         (remdups (map id_of ds))"

text \<open>\<open>$project\<close> with inclusions only: the listed fields that the document has.\<close>

definition project :: "string list \<Rightarrow> doc \<Rightarrow> doc" where
  "project ks d = filter (\<lambda>(k, v). k \<in> set ks) d"

definition top_ratings :: "jsval \<Rightarrow> doc list \<Rightarrow> doc list" where
  "top_ratings userId users =
     map (project [''_id'', ''name'', ''gender'', ''age'', ''occupation'', ''num_ratings'',
                   ''topMovies''])
       (group_push ''topMovies'' ''movies''
          (take 5
             (sort_desc (path2 ''movies'' ''rating'')
                (unwind ''movies'' (match_id userId users)))))"

definition no_ratings_text :: string where
  "no_ratings_text = ''O user n'' @ [CHR 0xC3, CHR 0xA3] @ ''o avaliou nenhum filme''"

definition get_user :: "db \<Rightarrow> string \<Rightarrow> reply" where
  "get_user s user_id =
     (case checkId user_id of
        None \<Rightarrow> Send 400 (Error InvalidUserId)
      | Some userId \<Rightarrow>
          (case findOne_id (db_users s) userId of
             None \<Rightarrow> Send 404 (Error UserNotFound)
           | Some user \<Rightarrow>
               (case js_length (map_of user ''movies'') of
                  Inl e \<Rightarrow> Send 500 (Error (Failed e))
                | Inr len \<Rightarrow>
                    (if len = Some (JNum (num 0))
                     then Send 200 (Json (JObj (obj_lit
                            [(''_id'', map_of user ''_id''), (''name'', map_of user ''name''),
                             (''gender'', map_of user ''gender''), (''age'', map_of user ''age''),
                             (''occupation'', map_of user ''occupation''),
                             (''num_ratings'', map_of user ''num_ratings''),
                             (''topMovies'', Some (JStr no_ratings_text))])))
                     else Send 200 (Json (JArr (map JObj (top_ratings userId (db_users s)))))))))"

definition delete_user :: "db \<Rightarrow> string \<Rightarrow> reply \<times> db" where
  "delete_user s user_id =
     (case checkId user_id of
        None \<Rightarrow> (Send 400 (Error InvalidUserId), s)
      | Some userId \<Rightarrow>
          (case findOne_id (db_users s) userId of
             None \<Rightarrow> (Send 404 (Error UserNotExist), s)
           | Some user \<Rightarrow>
               (Send 200 (Result UserDeleted (Deleted 1)),
                s\<lparr>db_users := deleteOne userId (db_users s)\<rparr>)))"

text \<open>
  What \<open>PUT /users/id/:user_id\<close> does to a validated body that has fields: when \<open>movies\<close>
  is truthy, count the ratings, then stamp them.
\<close>

definition stampUpdate :: "clock \<Rightarrow> doc \<Rightarrow> exn + doc" where
  "stampUpdate clk body =
     (case map_of body ''movies'' of
        Some m \<Rightarrow>
          (if truthy (Some m)
           then (case js_length (Some m) of
                   Inl e \<Rightarrow> Inl e
                 | Inr len \<Rightarrow>
                     (case addTimestampAndDate clk m of
                        Inl e \<Rightarrow> Inl e
                      | Inr ms \<Rightarrow>
                          Inr (setField ''movies'' (JArr ms)
                                 (set_fields (obj_lit [(''num_ratings'', len)]) body))))
           else Inr body)
      | None \<Rightarrow> Inr body)"

definition put_user :: "clock \<Rightarrow> db \<Rightarrow> string \<Rightarrow> jsval \<Rightarrow> reply \<times> db" where
  "put_user clk s user_id req_body =
     (let userId = checkId user_id in
      if \<not> truthy userId then (Send 400 (Error InvalidUserId), s)
      else case userId of
        None \<Rightarrow> (Send 400 (Error InvalidUserId), s)
      | Some uid \<Rightarrow>
          (case findOne_id (db_users s) uid of
             None \<Rightarrow> (Send 404 (Error UserNotExist), s)
           | Some user \<Rightarrow>
               (if isArray (Some req_body) then (Send 400 (Error DataMustBeObject), s)
                else case filterValidFields_user req_body of
                  Inl e \<Rightarrow> (Send 500 (Error UpdateFailed), s)
                | Inr body \<Rightarrow>
                    (let errors = validateUserToUpdate (db_movies s) body in
                     if errors \<noteq> [] then (Send 400 (ErrorFields InvalidUserData errors), s)
                     else if body = [] then (Send 400 (Error NoValidFields), s)
                     else case stampUpdate clk body of
                       Inl e \<Rightarrow> (Send 500 (Error UpdateFailed), s)
                     | Inr body' \<Rightarrow>
                         (Send 200 (Result UserUpdated (Updated 1)),
                          s\<lparr>db_users := updateOne_set uid body' (db_users s)\<rparr>)))))"

section \<open>Movies: validation and handlers\<close>

definition filterValidFields_movie :: "jsval \<Rightarrow> exn + doc" where
  "filterValidFields_movie movie = filterFields [''title'', ''year'', ''genres''] movie"

text \<open>
  \<open>Array.prototype.includes\<close> compares by SameValueZero: primitives by value, objects by
  identity, and a value parsed from a request is never the same object as a stored one.
\<close>

fun same_value_zero :: "jsval \<Rightarrow> jsval \<Rightarrow> bool" where
  "same_value_zero JNull JNull = True"
| "same_value_zero (JBool a) (JBool b) = (a = b)"
| "same_value_zero (JNum a) (JNum b) = (a = b)"
| "same_value_zero (JStr a) (JStr b) = (a = b)"
| "same_value_zero a b = False"

definition js_includes :: "jsval list \<Rightarrow> jsval \<Rightarrow> bool" where
  "js_includes xs v = list_ex (\<lambda>x. same_value_zero x v) xs"

text \<open>
  What the variable \<open>availableGenres\<close> holds: the array of the distinct genres where the
  query is awaited, the promise of that array where it is not. A promise has no method
  \<open>includes\<close>, and calling it throws.
\<close>

datatype genres_ref = Pending "jsval list" | Resolved "jsval list"

fun genres_loop :: "genres_ref \<Rightarrow> jsval list \<Rightarrow> exn + verr list" where
  "genres_loop availableGenres [] = Inr []"
| "genres_loop availableGenres (genre # rest) =
     (if typeof (Some genre) \<noteq> TString
      then (case genres_loop availableGenres rest of
              Inl e \<Rightarrow> Inl e
            | Inr errors \<Rightarrow> Inr (GenreNotString # errors))
      else (case availableGenres of
              Pending xs \<Rightarrow> Inl (TypeError ''availableGenres.includes is not a function'')
            | Resolved xs \<Rightarrow>
                (case genres_loop availableGenres rest of
                   Inl e \<Rightarrow> Inl e
                 | Inr errors \<Rightarrow>
                     Inr ((if \<not> js_includes xs genre
                           then [GenreNotValid (str_of (Some genre)) xs] else []) @ errors))))"

definition arr_of :: "jsval option \<Rightarrow> jsval list" where
  "arr_of v = (case v of Some (JArr xs) \<Rightarrow> xs | _ \<Rightarrow> [])"

text \<open>\<open>validateMovie\<close> takes the distinct genres without awaiting the query.\<close>

definition validateMovie :: "doc list \<Rightarrow> doc \<Rightarrow> exn + verr list" where
  "validateMovie ms movie =
     (let title = map_of movie ''title''; year = map_of movie ''year'';
          genres = map_of movie ''genres'';
          errors =
            (if \<not> truthy title \<or> typeof title \<noteq> TString \<or> blank (str_of title)
             then [TitleInvalid] else [])
          @ (if \<not> truthy year \<or> typeof year \<noteq> TNumber \<or> js_le (num_of year) (num 1500)
             then [YearInvalid] else [])
      in if \<not> truthy genres \<or> \<not> isArray genres \<or> arr_of genres = []
         then Inr (errors @ [GenresInvalid])
         else (case genres_loop (Pending (distinct_field ''genres'' ms)) (arr_of genres) of
                 Inl e \<Rightarrow> Inl e
               | Inr genre_errors \<Rightarrow> Inr (errors @ genre_errors)))"

text \<open>\<open>validateMovieToUpdate\<close> awaits it.\<close>

definition validateMovieToUpdate :: "doc list \<Rightarrow> doc \<Rightarrow> exn + verr list" where
  "validateMovieToUpdate ms movie =
     (let title = map_of movie ''title''; year = map_of movie ''year'';
          genres = map_of movie ''genres'';
          errors =
            (if truthy title \<and> typeof title \<noteq> TString then [TitleNotString] else [])
          @ (if truthy year \<and> (typeof year \<noteq> TNumber \<or> js_lt (num_of year) (num 1500))
             then [YearNotValid] else [])
      in if truthy genres
         then (if \<not> isArray genres then Inr (errors @ [GenresNotArray])
               else if arr_of genres = [] then Inr (errors @ [GenresEmpty])
               else (case genres_loop (Resolved (distinct_field ''genres'' ms)) (arr_of genres) of
                       Inl e \<Rightarrow> Inl e
                     | Inr genre_errors \<Rightarrow> Inr (errors @ genre_errors)))
         else Inr errors)"

fun movies_loop :: "doc list \<Rightarrow> nat \<Rightarrow> jsval list \<Rightarrow> exn + (nat \<times> verr list) list \<times> doc list" where
  "movies_loop ms i [] = Inr ([], [])"
| "movies_loop ms i (m # rest) =
     (case filterValidFields_movie m of
        Inl e \<Rightarrow> Inl e
      | Inr movie \<Rightarrow>
          (case validateMovie ms movie of
             Inl e \<Rightarrow> Inl e
           | Inr errors \<Rightarrow>
               (case movies_loop ms (Suc i) rest of
                  Inl e \<Rightarrow> Inl e
                | Inr (errorsArray, docs) \<Rightarrow>
                    Inr ((if errors \<noteq> [] then [(i, errors)] else []) @ errorsArray,
                         movie # docs))))"

definition post_movies :: "(nat \<Rightarrow> string) \<Rightarrow> db \<Rightarrow> jsval \<Rightarrow> reply \<times> db" where
  "post_movies gen s body =
     (case body of
        JArr movies \<Rightarrow>
          (case movies_loop (db_movies s) 0 movies of
             Inl e \<Rightarrow> (Send 500 (Error (Failed e)), s)
           | Inr (errorsArray, docs) \<Rightarrow>
               (if errorsArray \<noteq> []
                then (Send 400 (ErrorDetails InvalidMovieData errorsArray), s)
                else (case insertMany gen (db_movies s) docs of
                        Inl e \<Rightarrow> (Send 500 (Error (Failed e)), s)
                      | Inr (results, coll) \<Rightarrow>
                          (Send 201 (Result MoviesAdded results), s\<lparr>db_movies := coll\<rparr>))))
      | _ \<Rightarrow> (Send 400 (Error DataMustBeArray), s))"

text \<open>
  \<open>$group\<close> with \<open>_id: null\<close> and \<open>$avg\<close>: no group for no input; the average is over the
  numbers among the values and is \<open>null\<close> when there are none.
\<close>

definition numbers_at :: "(doc \<Rightarrow> jsval option) \<Rightarrow> doc list \<Rightarrow> jsnum list" where
  "numbers_at f ds = concat (map (\<lambda>d. case f d of Some (JNum n) \<Rightarrow> [n] | _ \<Rightarrow> []) ds)"

definition group_avg :: "string \<Rightarrow> (doc \<Rightarrow> jsval option) \<Rightarrow> doc list \<Rightarrow> doc list" where
  "group_avg out f ds =
     (if ds = [] then []
      else [[(''_id'', JNull),
             (out, (let ns = numbers_at f ds in
                    if ns = [] then JNull
                    else JNum (js_div (foldl js_add (Fin 0) ns) (num (length ns)))))]])"

definition no_average_text :: string where
  "no_average_text = ''Sem avalia'' @ [CHR 0xC3, CHR 0xA7, CHR 0xC3, CHR 0xB5] @ ''es''"

definition get_movie :: "db \<Rightarrow> string \<Rightarrow> reply" where
  "get_movie s movie_id =
     (case checkId movie_id of
        None \<Rightarrow> Send 400 (Error InvalidMovieId)
      | Some movieId \<Rightarrow>
          (case findOne_id (db_movies s) movieId of
             None \<Rightarrow> Send 404 (Error MovieNotFound)
           | Some movie \<Rightarrow>
               (let ratingsAggregation =
                      group_avg ''averageRating'' (path2 ''movies'' ''rating'')
                        (filter (\<lambda>d. eq_match movieId (path2 ''movies'' ''movieid'' d))
                           (unwind ''movies'' (db_users s)))
                in case ratingsAggregation of
                     g # gs \<Rightarrow>
                       Send 200 (Json (JObj (set_fields
                          (obj_lit [(''averageRating'', map_of g ''averageRating'')]) movie)))
                   | [] \<Rightarrow>
                       Send 200 (Json (JObj (setField ''averageRating'' (JStr no_average_text)
                                               movie))))))"

definition delete_movie :: "db \<Rightarrow> string \<Rightarrow> reply \<times> db" where
  "delete_movie s movie_id =
     (case checkId movie_id of
        None \<Rightarrow> (Send 400 (Error InvalidMovieId), s)
      | Some movieId \<Rightarrow>
          (case findOne_id (db_movies s) movieId of
             None \<Rightarrow> (Send 404 (Error MovieNotExists), s)
           | Some movie \<Rightarrow>
               (Send 200 (Result MovieDeleted (Deleted 1)),
                s\<lparr>db_movies := deleteOne movieId (db_movies s)\<rparr>)))"

definition put_movie :: "db \<Rightarrow> string \<Rightarrow> jsval \<Rightarrow> reply \<times> db" where
  "put_movie s movie_id req_body =
     (let movieId = checkId movie_id in
      if \<not> truthy movieId then (Send 400 (Error InvalidMovieId), s)
      else case movieId of
        None \<Rightarrow> (Send 400 (Error InvalidMovieId), s)
      | Some mid \<Rightarrow>
          (case findOne_id (db_movies s) mid of
             None \<Rightarrow> (Send 404 (Error MovieNotExists), s)
           | Some movie \<Rightarrow>
               (if isArray (Some req_body) then (Send 400 (Error DataMustBeObject), s)
                else case filterValidFields_movie req_body of
                  Inl e \<Rightarrow> (Send 500 (Error UpdateFailed), s)
                | Inr body \<Rightarrow>
                    (case validateMovieToUpdate (db_movies s) body of
                       Inl e \<Rightarrow> (Send 500 (Error UpdateFailed), s)
                     | Inr errors \<Rightarrow>
                         (if errors \<noteq> [] then (Send 400 (ErrorFields InvalidMovieData errors), s)
                          else if body = [] then (Send 400 (Error NoValidFields), s)
                          else (Send 200 (Result MovieUpdated (Updated 1)),
                                s\<lparr>db_movies := updateOne_set mid body (db_movies s)\<rparr>))))))"

subsection \<open>Movies of a genre and a year\<close>

definition isAlpha :: "char \<Rightarrow> bool" where
  "isAlpha c = (c \<in> set ''abcdefghijklmnopqrstuvwxyzABCDEFGHIJKLMNOPQRSTUVWXYZ'')"

text \<open>The test \<open>/^[a-zA-Z]+$/.test(s)\<close>.\<close>

definition isLetters :: "string \<Rightarrow> bool" where
  "isLetters s = (s \<noteq> [] \<and> list_all isAlpha s)"

text \<open>
  \<open>find({genres: genre, year: year}, {projection: {_id: 0}})\<close>, with the two values the
  handler passes: both are the strings of the path.
\<close>

definition find_genre_year :: "doc list \<Rightarrow> jsval \<Rightarrow> jsval \<Rightarrow> doc list" where
  "find_genre_year coll genre year =
     map (filter (\<lambda>(k, v). k \<noteq> ''_id''))
       (filter (\<lambda>d. eq_match genre (map_of d ''genres'') \<and> eq_match year (map_of d ''year''))
          coll)"

definition get_genre_year :: "nat \<Rightarrow> db \<Rightarrow> string \<Rightarrow> string \<Rightarrow> reply" where
  "get_genre_year fullYear s genre_name year_param =
     (if genre_name = [] \<or> year_param = [] then Send 400 (Error GenreYearRequired)
      else if \<not> isLetters genre_name \<or> \<not> isNumeric year_param
      then Send 400 (Error GenreYearFormat)
      else
        let genre = JStr genre_name; year = JStr year_param;
            genres = distinct_field ''genres'' (db_movies s)
        in if \<not> js_includes genres genre then Send 404 (ErrorGenres GenreNotFound genres)
           else if js_lt (parseInt year_param) (num 1500)
                   \<or> js_gt (parseInt year_param) (num fullYear)
           then Send 400 (Error YearOutOfRange)
           else
             let results = find_genre_year (db_movies s) genre year
             in if results = [] then Send 404 (Error NoMovieMatches)
                else Send 200 (Json (JArr (map JObj results))))"

section \<open>Cinemas\<close>

text \<open>
  The loop of \<open>PUT /cinemas/id/:id_cinema\<close> over the identifiers of the body, on the list
  of the cinema and the list of the identifiers not found. A stored \<open>movies\<close> that is not
  an array has no \<open>push\<close>.
\<close>

fun attach_loop :: "doc list \<Rightarrow> jsval list \<Rightarrow> jsval \<times> jsval list \<Rightarrow> exn + jsval \<times> jsval list" where
  "attach_loop ms [] (movies, filmesNaoAdicionados) = Inr (movies, filmesNaoAdicionados)"
| "attach_loop ms (movieId # rest) (movies, filmesNaoAdicionados) =
     (case findOne_id ms movieId of
        None \<Rightarrow> attach_loop ms rest (movies, filmesNaoAdicionados @ [movieId])
      | Some filme \<Rightarrow>
          (case movies of
             JArr xs \<Rightarrow>
               (if \<not> js_includes xs movieId
                then attach_loop ms rest (JArr (xs @ [movieId]), filmesNaoAdicionados)
                else attach_loop ms rest (movies, filmesNaoAdicionados))
           | _ \<Rightarrow> Inl (TypeError ''movies.push is not a function'')))"

definition put_cinema :: "db \<Rightarrow> string \<Rightarrow> jsval \<Rightarrow> reply \<times> db" where
  "put_cinema s id_cinema req_body =
     (case new_ObjectId id_cinema of
        Inl e \<Rightarrow> (Send 500 (Error (Failed e)), s)
      | Inr cinema_id \<Rightarrow>
          (case findOne_id (db_cinemas s) cinema_id of
             None \<Rightarrow> (Send 404 (Error CinemaNotFound), s)
           | Some cinema \<Rightarrow>
               (let movies = (case map_of cinema ''movies'' of
                                Some m \<Rightarrow> if truthy (Some m) then m else JArr []
                              | None \<Rightarrow> JArr [])
                in if req_body = JNull
                   then (Send 500 (Error (Failed (TypeError ''Cannot read properties of null''))), s)
                   else
                     let body_movies = getProp req_body ''movies'' in
                     if \<not> truthy body_movies then (Send 400 (Error BodyNeedsMovies), s)
                     else if \<not> isArray body_movies then (Send 400 (Error BodyMoviesNotArray), s)
                     else case attach_loop (db_movies s) (arr_of body_movies) (movies, []) of
                       Inl e \<Rightarrow> (Send 500 (Error (Failed e)), s)
                     | Inr (movies', filmesNaoAdicionados) \<Rightarrow>
                         (if length filmesNaoAdicionados = length (arr_of body_movies)
                          then (Send 404 (Error MoviesNotFound), s)
                          else (Send 200 (Added filmesNaoAdicionados),
                                s\<lparr>db_cinemas :=
                                    updateOne_set cinema_id [(''movies'', movies')]
                                      (db_cinemas s)\<rparr>)))))"

subsection \<open>Geospatial routes\<close>

text \<open>
  The four routes parse their coordinates with \<open>parseFloat\<close>, here a parameter \<open>pf\<close>, and
  ask the store one geospatial question, answered by a parameter \<open>run\<close>. A handler returns
  the questions it has asked together with its reply.
\<close>

datatype geo_query =
    NearPoint jsnum jsnum
  | OnLine jsnum jsnum jsnum jsnum
  | CountWithin jsnum jsnum
  | AtPoint jsnum jsnum

definition cinemas_near :: "(string \<Rightarrow> jsnum) \<Rightarrow> (geo_query \<Rightarrow> doc list) \<Rightarrow> string \<Rightarrow> string
    \<Rightarrow> geo_query list \<times> reply" where
  "cinemas_near pf run lng lat =
     (let latitude = pf lat; longitude = pf lng in
      if \<not> truthy_num latitude \<or> \<not> truthy_num longitude
      then ([], Send 400 (Error LatLngRequired))
      else
        let q = NearPoint longitude latitude;
            results = map (project [''_id'']) (run q)
        in ([q], if results = [] then Send 404 (Error NoCinemasNear)
                 else Send 200 (Json (JArr (map JObj results)))))"

definition cinemas_near_line :: "(string \<Rightarrow> jsnum) \<Rightarrow> (geo_query \<Rightarrow> doc list)
    \<Rightarrow> string \<Rightarrow> string \<Rightarrow> string \<Rightarrow> string \<Rightarrow> geo_query list \<times> reply" where
  "cinemas_near_line pf run lng1 lat1 lng2 lat2 =
     (let latitude1 = pf lat1; longitude1 = pf lng1;
          latitude2 = pf lat2; longitude2 = pf lng2 in
      if \<not> truthy_num latitude1 \<or> \<not> truthy_num longitude1
         \<or> \<not> truthy_num latitude2 \<or> \<not> truthy_num longitude2
      then ([], Send 400 (Error LatLngRequiredBoth))
      else
        let q = OnLine longitude1 latitude1 longitude2 latitude2;
            results = map (project [''_id'']) (run q)
        in ([q], if results = [] then Send 404 (Error NoCinemasOnLine)
                 else Send 200 (Json (JArr (map JObj results)))))"

definition cinemas_near_sum :: "(string \<Rightarrow> jsnum) \<Rightarrow> (geo_query \<Rightarrow> doc list) \<Rightarrow> string \<Rightarrow> string
    \<Rightarrow> geo_query list \<times> reply" where
  "cinemas_near_sum pf run lng lat =
     (let latitude = pf lat; longitude = pf lng in
      if \<not> truthy_num latitude \<or> \<not> truthy_num longitude
      then ([], Send 400 (Error LatLngRequired))
      else
        let q = CountWithin longitude latitude;
            count = length (run q)
        in ([q], if count = 0 then Send 404 (Error NoCinemasNear)
                 else Send 200 (Json (JObj [(''Cinemas'', JNum (num count))]))))"

definition cinemas_within :: "(string \<Rightarrow> jsnum) \<Rightarrow> (geo_query \<Rightarrow> doc list) \<Rightarrow> string \<Rightarrow> string
    \<Rightarrow> geo_query list \<times> reply" where
  "cinemas_within pf run lng lat =
     (let latitude = pf lat; longitude = pf lng in
      if \<not> truthy_num latitude \<or> \<not> truthy_num longitude
      then ([], Send 400 (Error LatLngMustBeGiven))
      else
        let q = AtPoint longitude latitude;
            result = run q
        in ([q], if result = [] then Send 400 (Error NotInFestival)
                 else Send 200 (Json (JArr (map JObj result)))))"

section \<open>Example states and requests\<close>

text \<open>Concrete states and requests on which the handlers are run below.\<close>

definition three_users :: db where
  "three_users =
     \<lparr>db_users = [[(''_id'', JNum (num 1))], [(''_id'', JNum (num 2))],
                  [(''_id'', JNum (num 3))]],
      db_movies = [], db_cinemas = []\<rparr>"

definition heat :: doc where
  "heat = [(''_id'', JNum (Fin 1)), (''title'', JStr ''Heat''), (''year'', JNum (Fin 1995)),
           (''genres'', JArr [JStr ''Drama''])]"

definition ran :: doc where
  "ran = [(''_id'', JNum (Fin 2)), (''title'', JStr ''Ran''), (''year'', JNum (Fin 1985)),
          (''genres'', JArr [JStr ''Drama'', JStr ''War''])]"

definition ann_ratings :: jsval where
  "ann_ratings =
     JArr [JObj [(''movieid'', JNum (Fin 1)), (''rating'', JNum (Fin 3)),
                 (''timestamp'', JNum (Fin 1700000000)),
                 (''date'', JStr ''2023-11-14T22:13:20.000Z'')],
           JObj [(''movieid'', JNum (Fin 2)), (''rating'', JNum (Fin 5)),
                 (''timestamp'', JNum (Fin 1700000000)),
                 (''date'', JStr ''2023-11-14T22:13:20.000Z'')]]"

definition ann :: doc where
  "ann = [(''_id'', JNum (Fin 1)), (''name'', JStr ''Ann''), (''gender'', JStr ''F''),
          (''age'', JNum (Fin 30)), (''occupation'', JStr ''pilot''),
          (''movies'', ann_ratings), (''num_ratings'', JNum (Fin 2))]"

definition odeon :: doc where
  "odeon = [(''_id'', JOid ''65a1b2c3d4e5f60718293a4b''), (''name'', JStr ''Odeon''),
            (''movies'', JArr [JNum (Fin 1)])]"

definition store1 :: db where
  "store1 = \<lparr>db_users = [ann], db_movies = [heat, ran], db_cinemas = [odeon]\<rparr>"

definition empty_store :: db where
  "empty_store = \<lparr>db_users = [], db_movies = [], db_cinemas = []\<rparr>"

definition clk1 :: clock where
  "clk1 = \<lparr>now_ms = 1700000000123, now_iso = ''2023-11-14T22:13:20.123Z''\<rparr>"

text \<open>A movie of a genre that no stored movie has, and one of a genre that is stored.\<close>

definition alien :: jsval where
  "alien = JObj [(''title'', JStr ''Alien''), (''year'', JNum (Fin 1979)),
                 (''genres'', JArr [JStr ''Horror''])]"

definition ikiru :: jsval where
  "ikiru = JObj [(''title'', JStr ''Ikiru''), (''year'', JNum (Fin 1952)),
                 (''genres'', JArr [JStr ''Drama''])]"

text \<open>A user whose \<open>movies\<close> is a string.\<close>

definition bob :: jsval where
  "bob = JObj [(''name'', JStr ''Bob''), (''gender'', JStr ''M''), (''age'', JNum (Fin 40)),
               (''occupation'', JStr ''cook''), (''movies'', JStr ''abc'')]"

text \<open>An identifier generator: the index of the document, padded to 24 digits.\<close>

definition fresh_oid :: "nat \<Rightarrow> string" where
  "fresh_oid i = replicate (24 - length (show_nat i)) (CHR ''0'') @ show_nat i"

text \<open>A stand-in for \<open>parseFloat\<close> on the few strings of the examples.\<close>

definition parse_coord :: "string \<Rightarrow> jsnum" where
  "parse_coord s = (if isNumeric s then parseInt s else NaN)"

text \<open>A store whose user 0 has no ratings and whose movie 0 nobody has rated.\<close>

definition zed :: doc where
  "zed = [(''_id'', JNum (Fin 0)), (''name'', JStr ''Zed''), (''gender'', JStr ''M''),
          (''age'', JNum (Fin 50)), (''occupation'', JStr ''clerk''), (''movies'', JArr []),
          (''num_ratings'', JNum (Fin 0))]"

definition zulu :: doc where
  "zulu = [(''_id'', JNum (Fin 0)), (''title'', JStr ''Zulu''), (''year'', JNum (Fin 1964)),
           (''genres'', JArr [JStr ''War''])]"

definition store0 :: db where
  "store0 = \<lparr>db_users = [zed, ann], db_movies = [zulu, heat], db_cinemas = []\<rparr>"

section \<open>Properties of the numbers\<close>

text \<open>
  Rounding keeps every whole number up to \<open>2 ^ 53\<close>, never makes a \<open>NaN\<close>, and keeps a
  number from \<open>2 ^ 53\<close> on at or above \<open>2 ^ 53\<close>. The first whole number that is not a
  double is \<open>2 ^ 53 + 1\<close>; it is rounded down.
\<close>

lemma ilog2_bounds:
  assumes "1 \<le> x"
  shows "0 \<le> ilog2 x" and "2 powi ilog2 x \<le> x" and "x < 2 powi (ilog2 x + 1)"
proof -
  let ?k = "\<lfloor>x\<rfloor>"
  from assms have k: "0 < ?k" by simp
  from bitlen_bounds [OF k] have lo: "2 ^ nat (bitlen ?k - 1) \<le> ?k"
    and hi: "?k < 2 ^ nat (bitlen ?k)" by auto
  from k have b1: "1 \<le> bitlen ?k"
    using bitlen_eq_zero_iff [of ?k] bitlen_nonneg [of ?k] by linarith
  from assms have e: "ilog2 x = bitlen ?k - 1" by (simp add: ilog2_def)
  from b1 e show "0 \<le> ilog2 x" by simp
  have "(2::rat) powi ilog2 x = of_int (2 ^ nat (bitlen ?k - 1))"
    using b1 e by (simp add: power_int_def)
  also have "\<dots> \<le> of_int ?k" using lo by (simp only: of_int_le_iff)
  also have "\<dots> \<le> x" by simp
  finally show "2 powi ilog2 x \<le> x" .
  from hi have "?k + 1 \<le> 2 ^ nat (bitlen ?k)" by simp
  then have "(of_int (?k + 1) :: rat) \<le> of_int (2 ^ nat (bitlen ?k))"
    by (simp only: of_int_le_iff)
  moreover have "x < of_int (?k + 1)" by linarith
  ultimately have "x < of_int (2 ^ nat (bitlen ?k))" by linarith
  also have "\<dots> = 2 powi (ilog2 x + 1)" using b1 e by (simp add: power_int_def)
  finally show "x < 2 powi (ilog2 x + 1)" .
qed

lemma ilog2_small: "x < 1 \<Longrightarrow> ilog2 x \<le> 0"
  by (simp add: ilog2_def bitlen_nonneg)

lemma round_half_even_int [simp]: "round_half_even (of_int j) = j"
  by (simp add: round_half_even_def)

lemma round_half_even_bounds:
  "\<lfloor>y\<rfloor> \<le> round_half_even y" "of_int (round_half_even y) \<le> y + 1"
proof -
  show "\<lfloor>y\<rfloor> \<le> round_half_even y" by (simp add: round_half_even_def Let_def)
  have "round_half_even y \<le> \<lfloor>y\<rfloor> + 1" by (simp add: round_half_even_def Let_def)
  then have "(of_int (round_half_even y) :: rat) \<le> of_int (\<lfloor>y\<rfloor> + 1)"
    by (simp only: of_int_le_iff)
  also have "\<dots> \<le> y + 1" by simp
  finally show "of_int (round_half_even y) \<le> y + 1" .
qed

lemma round_pos_exact:
  assumes "x / 2 powi ulp_exp x \<in> \<int>" and "x < 2 ^ 1024"
  shows "round_pos x = Fin x"
proof -
  from assms(1) obtain j where j: "x / 2 powi ulp_exp x = of_int j" by (elim Ints_cases)
  then have "of_int j * 2 powi ulp_exp x = x"
    by (metis nonzero_divide_eq_eq power_int_eq_0_iff zero_neq_numeral)
  with j assms(2) show ?thesis by (simp add: round_pos_def Let_def)
qed

lemma ulp_exp_int:
  assumes "0 < k" and "k \<le> 2 ^ 53"
  shows "ulp_exp (of_int k) = bitlen k - 53" and "bitlen k \<le> 54"
proof -
  from assms have "k < 2 ^ nat 54" by simp
  then show b: "bitlen k \<le> 54" by (simp add: bitlen_le_iff_power)
  from assms have "ilog2 (of_int k) = bitlen k - 1" by (simp add: ilog2_def)
  moreover have "0 \<le> bitlen k" by (rule bitlen_nonneg)
  ultimately show "ulp_exp (of_int k) = bitlen k - 53" by (simp add: ulp_exp_def)
qed

lemma round_pos_of_int:
  assumes "0 < k" and "k \<le> 2 ^ 53"
  shows "round_pos (of_int k) = Fin (of_int k)"
proof (rule round_pos_exact)
  from assms have "(of_int k :: rat) \<le> of_int (2 ^ 53)" by (simp only: of_int_le_iff)
  then show "(of_int k :: rat) < 2 ^ 1024" by simp
  note u = ulp_exp_int [OF assms]
  show "(of_int k :: rat) / 2 powi ulp_exp (of_int k) \<in> \<int>"
  proof (cases "bitlen k \<le> 53")
    case True
    then have "(2::rat) powi (53 - bitlen k) = 2 ^ nat (53 - bitlen k)"
      by (simp add: power_int_def)
    moreover have "(2::rat) powi (53 - bitlen k) * 2 powi (bitlen k - 53) = 1"
      by (simp add: power_int_add [symmetric])
    then have "(of_int k :: rat) / 2 powi (bitlen k - 53) = of_int k * 2 powi (53 - bitlen k)"
      by (simp add: nonzero_divide_eq_eq)
    ultimately have "(of_int k :: rat) / 2 powi ulp_exp (of_int k) = of_int (k * 2 ^ nat (53 - bitlen k))"
      using u(1) by simp
    then show ?thesis by (simp only: Ints_of_int)
  next
    case False
    with u(2) have b: "bitlen k = 54" by simp
    with bitlen_bounds [OF assms(1)] have "2 ^ 53 \<le> k" by simp
    with assms(2) have "k = 2 ^ 53" by simp
    with u(1) b have "(of_int k :: rat) / 2 powi ulp_exp (of_int k) = of_int (2 ^ 52)"
      by (simp add: power_int_def)
    then show ?thesis by (simp only: Ints_of_int)
  qed
qed

lemma round_double_of_int:
  assumes "0 \<le> k" and "k \<le> 2 ^ 53"
  shows "round_double (of_int k) = Fin (of_int k)"
  using assms round_pos_of_int [of k] by (cases "k = 0") (simp_all add: round_double_def)


lemma round_double_not_NaN: "round_double x \<noteq> NaN"
  by (simp add: round_double_def round_pos_def Let_def)

lemma powi_le_imp: "(2::rat) powi a \<le> x \<Longrightarrow> x < 2 powi b \<Longrightarrow> a < b"
  by (metis less_le_trans linorder_not_less one_less_numeral_iff power_int_increasing
      order_less_imp_le semiring_norm(76))

lemma round_pos_lower:
  assumes "2 ^ k \<le> x"
  shows "round_pos x = PosInf \<or> (\<exists>v. round_pos x = Fin v \<and> 2 ^ k \<le> v)"
proof -
  have "(1::rat) \<le> 2 ^ k" by simp
  from this assms have x1: "1 \<le> x" by (rule order_trans)
  let ?e = "ilog2 x"
  let ?u = "ulp_exp x"
  let ?y = "x / 2 powi ?u"
  let ?m = "round_half_even ?y"
  from assms have "(2::rat) powi int k \<le> x" by simp
  from this ilog2_bounds(3) [OF x1] have "int k < ?e + 1" by (rule powi_le_imp)
  then have e: "int k \<le> ?e" by simp
  from ilog2_bounds(1) [OF x1] have u: "?u = ?e - 52" by (simp add: ulp_exp_def)
  have p: "(0::rat) < 2 powi ?u" by simp
  have "(2::rat) powi 52 = 2 powi ?e / 2 powi ?u" by (simp add: u power_int_diff)
  also have "\<dots> \<le> ?y" using ilog2_bounds(2) [OF x1] p by (intro divide_right_mono) simp_all
  finally have "(of_int (2 ^ 52) :: rat) \<le> ?y" by simp
  then have "2 ^ 52 \<le> \<lfloor>?y\<rfloor>" by (simp only: le_floor_iff)
  with round_half_even_bounds(1) [of ?y] have "2 ^ 52 \<le> ?m" by linarith
  then have "(of_int (2 ^ 52) :: rat) \<le> of_int ?m" by (simp only: of_int_le_iff)
  then have m: "(2::rat) powi 52 \<le> of_int ?m" by simp
  have s: "(2::rat) powi 52 * 2 powi ?u = 2 powi ?e"
  proof -
    have "(2::rat) powi (52 + (?e - 52)) = 2 powi 52 * 2 powi (?e - 52)"
      by (rule power_int_add) simp
    then show ?thesis by (simp add: u)
  qed
  have "(2::rat) powi int k \<le> 2 powi ?e" using e by (intro power_int_increasing) simp_all
  then have "(2::rat) ^ k \<le> 2 powi ?e" by simp
  also have "\<dots> = 2 powi 52 * 2 powi ?u" by (rule s [symmetric])
  also have "\<dots> \<le> of_int ?m * 2 powi ?u" using m by (rule mult_right_mono) simp
  finally show ?thesis by (simp add: round_pos_def Let_def)
qed



text \<open>What is \<open>2 ^ 1024\<close> or more is past every double.\<close>

lemma round_double_overflow:
  assumes "2 ^ 1024 \<le> x"
  shows "round_double x = PosInf"
proof -
  have "(0::rat) < 2 ^ 1024" by simp
  from this assms have "0 < x" by (rule less_le_trans)
  moreover have "v < 2 ^ 1024" if "round_pos x = Fin v" for v
    using that by (auto simp: round_pos_def Let_def split: if_splits)
  ultimately show ?thesis
    using round_pos_lower [OF assms] by (auto simp: round_double_def)
qed

lemma round_double_sign:
  assumes "0 \<le> x"
  shows "round_double x = PosInf \<or> (\<exists>v. round_double x = Fin v \<and> 0 \<le> v)"
proof (cases "x = 0")
  case True
  then show ?thesis by (simp add: round_double_def)
next
  case False
  with assms have x: "0 < x" by simp
  let ?y = "x / 2 powi ulp_exp x"
  from x have "0 \<le> \<lfloor>?y\<rfloor>" by simp
  with round_half_even_bounds(1) [of ?y] have "0 \<le> round_half_even ?y" by linarith
  then have "(0::rat) \<le> of_int (round_half_even ?y) * 2 powi ulp_exp x" by simp
  with x show ?thesis by (simp add: round_double_def round_pos_def Let_def)
qed

lemma round_double_2_53_1: "round_double 9007199254740993 = Fin 9007199254740992"
proof -
  have "bitlen 9007199254740993 \<le> 54" by (simp add: bitlen_le_iff_power)
  moreover have "\<not> bitlen 9007199254740993 \<le> 53" by (simp add: bitlen_le_iff_power)
  ultimately have "bitlen 9007199254740993 = 54" by simp
  moreover have "\<lfloor>9007199254740993 / 2 :: rat\<rfloor> = 4503599627370496"
    by (rule floor_unique) simp_all
  ultimately show ?thesis
    by (simp add: round_double_def round_pos_def ulp_exp_def ilog2_def round_half_even_def
        Let_def power_int_def)
qed

lemma round_double_numeral:
  "numeral w \<le> (2::int) ^ 53 \<Longrightarrow> round_double (numeral w) = Fin (numeral w)"
  using round_double_of_int [of "numeral w"] by simp

lemma round_double_small: "round_double 0 = Fin 0" "round_double 1 = Fin 1"
  using round_double_of_int [of 0] round_double_of_int [of 1] by simp_all

lemmas round_double_simps = round_double_numeral round_double_small round_double_2_53_1



section \<open>Properties of the paginated listing\<close>

lemma parseInt_examples:
  "parseInt ''0'' = Fin 0" "parseInt ''1'' = Fin 1" "parseInt ''2'' = Fin 2"
  "parseInt ''10'' = Fin 10"
  "parseInt ''9007199254740992'' = Fin 9007199254740992"
  "parseInt ''9007199254740993'' = Fin 9007199254740992"
  by (simp_all add: parseInt_def isDigit_def decimal_def digit_val_def round_double_simps)

lemma isNumeric_examples:
  "isNumeric ''0''" "isNumeric ''1''" "isNumeric ''2''" "isNumeric ''10''"
  "isNumeric ''9007199254740992''"
  by (simp_all add: isNumeric_def isDigit_def)

lemmas page_defs =
  three_users_def totalPages_of_def find_sorted_def whole_def limit_docs_def sort_asc_def
  sort_by_def parseInt_num_def digits_value_def js_sub_def js_le_def js_gt_def js_neq_def
  num_def present_def









text \<open>
  A \<open>limit\<close> of 0 passes the digit test as well. The division by it makes \<open>totalPages\<close>
  infinite, every page from 1 on exists, and the answer lists the whole collection.
\<close>

lemma limit_zero_lists_all:
  "get_list Users find_sorted three_users (Some ''1'') (Some ''0'') =
     Send 200 (Json (JObj
       [(''users'', JArr (map JObj (db_users three_users))),
        (''totalDocs'', JNum (Fin 3)), (''currentPageDocs'', JNum (Fin 3)),
        (''totalPages'', JNum PosInf), (''currentPage'', JNum (Fin 1)),
        (''nextPage'', JNum (Fin 2))]))"
  by (simp add: parseInt_examples isNumeric_examples get_users_def list_route_def Let_def
        page_defs round_double_simps)

text \<open>
  A digit-only string has a value, which is not negative. When the value of \<open>limit\<close> is
  \<open>2 ^ 1024\<close> or more (a string of 309 digits or more), \<open>limit\<close> is \<open>Infinity\<close>,
  \<open>totalPages\<close> is 0 and no page exists.
\<close>

lemma decimal_snoc: "decimal (s @ [c]) = 10 * decimal s + int (digit_val c)"
  by (simp add: decimal_def)

lemma decimal_nonneg: "0 \<le> decimal s"
  by (induction s rule: rev_induct) (simp_all add: decimal_snoc, simp add: decimal_def)

lemma parseInt_digits:
  "isNumeric s \<Longrightarrow> parseInt s = round_double (of_int (decimal s))"
  by (auto simp: parseInt_def isNumeric_def Let_def list_all_iff takeWhile_eq_all_conv [THEN iffD2])

text \<open>Up to \<open>2 ^ 53\<close> the number parsed is the value of the digits.\<close>

lemma parseInt_safe:
  assumes "isNumeric s" and "decimal s \<le> 2 ^ 53"
  shows "parseInt s = num (nat (decimal s))"
  using round_double_of_int [OF decimal_nonneg assms(2)] decimal_nonneg [of s]
  by (simp add: parseInt_digits [OF assms(1)] num_def)

lemma parseInt_sign:
  assumes "isNumeric s"
  shows "parseInt s = PosInf \<or> (\<exists>v. parseInt s = Fin v \<and> 0 \<le> v)"
  using round_double_sign [of "of_int (decimal s)"] decimal_nonneg [of s]
  by (simp add: parseInt_digits [OF assms])

lemma parseInt_overflow:
  assumes "isNumeric s" and "2 ^ 1024 \<le> decimal s"
  shows "parseInt s = PosInf"
proof -
  from assms(2) have "(of_int (2 ^ 1024) :: rat) \<le> of_int (decimal s)"
    by (simp only: of_int_le_iff)
  then have "(2::rat) ^ 1024 \<le> of_int (decimal s)" by simp
  then show ?thesis by (simp add: parseInt_digits [OF assms(1)] round_double_overflow)
qed

lemma huge_limit_404:
  assumes pg: "isNumeric pg" and lm: "isNumeric lm" and huge: "2 ^ 1024 \<le> decimal lm"
  shows "get_list r cur s (Some pg) (Some lm) = Send 404 (Error PageNotExist)"
proof -
  from pg lm have pr: "present (Some pg)" "present (Some lm)"
    by (auto simp: present_def isNumeric_def)
  have tp: "totalPages_of d (parseInt lm) = Fin 0" for d
    by (simp add: parseInt_overflow [OF lm huge] totalPages_of_def num_def)
  from parseInt_sign [OF pg]
  have "js_lt (parseInt pg) (num 1) \<or> js_gt (parseInt pg) (Fin 0)"
    by (auto simp: js_gt_def num_def)
  with pr pg lm tp show ?thesis
    by (cases r)
       (simp_all add: get_users_def get_movies_def get_cinemas_def list_route_def Let_def)
qed

lemma decimal_power_of_ten: "decimal (CHR ''1'' # replicate n (CHR ''0'')) = 10 ^ n"
proof (induction n)
  case 0
  show ?case by (simp add: decimal_def digit_val_def)
next
  case (Suc n)
  have "CHR ''1'' # replicate (Suc n) (CHR ''0'') = (CHR ''1'' # replicate n (CHR ''0'')) @ ''0''"
    by (simp add: replicate_append_same)
  then have "decimal (CHR ''1'' # replicate (Suc n) (CHR ''0''))
      = 10 * decimal (CHR ''1'' # replicate n (CHR ''0'')) + int (digit_val (CHR ''0''))"
    by (simp only: decimal_snoc)
  with Suc show ?case by (simp add: digit_val_def)
qed

lemma limit_of_310_digits:
  "get_list r cur s (Some ''1'') (Some (CHR ''1'' # replicate 309 (CHR ''0'')))
     = Send 404 (Error PageNotExist)"
proof (rule huge_limit_404)
  show "isNumeric ''1''" by (simp add: isNumeric_def isDigit_def)
  show "isNumeric (CHR ''1'' # replicate 309 (CHR ''0''))"
    by (simp add: isNumeric_def isDigit_def list_all_iff)
  show "2 ^ 1024 \<le> decimal (CHR ''1'' # replicate 309 (CHR ''0''))"
    by (simp only: decimal_power_of_ten) simp
qed

text \<open>
  The limit that the users and cinemas handlers hand to the store: the limit itself below
  \<open>10 ^ 21\<close>, one digit from there on.
\<close>

lemma parseInt_num_examples:
  "parseInt_num (Fin 10) = Fin 10"
  "parseInt_num (Fin (10 ^ 21)) = Fin 1"
  "parseInt_num (Fin (5 * 10 ^ 22 - 2 ^ 22)) = Fin 5"
  "parseInt_num PosInf = NaN"
  by code_simp+

section \<open>Properties of the movie routes\<close>

lemmas example_defs =
  heat_def ran_def ann_def ann_ratings_def odeon_def store1_def empty_store_def clk1_def
  alien_def ikiru_def bob_def

text \<open>
  With the distinct genres left pending, the loop over the genres ends in one of two ways:
  every genre is rejected as not a string, or the first string throws. So
  \<open>validateMovie\<close> never returns without an error, and \<open>POST /movies\<close> never inserts.
\<close>

lemma genres_loop_Pending:
  "genres_loop (Pending xs) gs = Inr errors \<Longrightarrow> errors = map (\<lambda>g. GenreNotString) gs \<and> (\<forall>g\<in>set gs. typeof (Some g) \<noteq> TString)"
  by (induction gs arbitrary: errors) (auto split: if_splits sum.splits)

lemma genres_loop_Pending_string:
  "JStr g \<in> set gs \<Longrightarrow>
     genres_loop (Pending xs) gs = Inl (TypeError ''availableGenres.includes is not a function'')"
  by (induction gs) (auto split: sum.splits)

lemma validateMovie_string_genre:
  assumes "map_of movie ''genres'' = Some (JArr gs)" and "JStr g \<in> set gs"
  shows "validateMovie ms movie = Inl (TypeError ''availableGenres.includes is not a function'')"
  using assms genres_loop_Pending_string [OF assms(2)]
  by (auto simp: validateMovie_def Let_def isArray_def arr_of_def)

lemma validateMovie_never_passes:
  "validateMovie ms movie = Inr errors \<Longrightarrow> errors \<noteq> []"
  by (auto simp: validateMovie_def Let_def arr_of_def isArray_def
      split: if_splits sum.splits option.splits jsval.splits dest!: genres_loop_Pending)

lemma movies_loop_errors:
  "movies_loop ms i xs = Inr (errorsArray, docs) \<Longrightarrow>
     length docs = length xs \<and> (xs \<noteq> [] \<longrightarrow> errorsArray \<noteq> [])"
  by (induction xs arbitrary: i errorsArray docs)
     (auto split: sum.splits if_splits dest: validateMovie_never_passes)

lemma post_movies_never_inserts:
  "snd (post_movies gen s body) = s \<and> status_of (fst (post_movies gen s body)) \<in> {400, 500}"
  by (auto simp: post_movies_def insertMany_def split: jsval.splits sum.splits if_splits
      dest: movies_loop_errors)

text \<open>
  C1. Genre validation at creation is meant to answer 400 for a genre that no stored movie
  has and to let a stored genre pass. The handler does neither: \<open>validateMovie\<close> does not
  await the distinct genres, so the first genre that is a string makes the request fail
  with 500, whether the genre is new (\<open>alien\<close>), stored (\<open>ikiru\<close>) or the collection is
  empty. Nothing is inserted.
\<close>

theorem post_movies_string_genre_500:
  "post_movies gen store1 (JArr [alien]) =
     (Send 500 (Error (Failed (TypeError ''availableGenres.includes is not a function''))),
      store1)
 \<and> post_movies gen store1 (JArr [ikiru]) =
     (Send 500 (Error (Failed (TypeError ''availableGenres.includes is not a function''))),
      store1)
 \<and> post_movies gen empty_store (JArr [alien]) =
     (Send 500 (Error (Failed (TypeError ''availableGenres.includes is not a function''))),
      empty_store)"
  by (simp add: example_defs post_movies_def filterValidFields_movie_def filterFields_def
        validateMovie_def Let_def isArray_def arr_of_def str_of_def num_of_def
        js_le_def num_def isSpace_def isSpace2_def isSpace3_def)

text \<open>
  When every stored \<open>year\<close> is a number, as creation requires, the comparison with the
  string of the path never holds and the route never answers 200.
\<close>

lemma genre_year_numeric_years:
  assumes "\<forall>d\<in>set (db_movies s). \<exists>n. map_of d ''year'' = Some (JNum n)"
  shows "status_of (get_genre_year fullYear s genre_name year_param) \<in> {400, 404}"
proof -
  have "find_genre_year (db_movies s) g (JStr y) = []" for g y
    using assms by (auto simp: find_genre_year_def filter_empty_conv)
  then show ?thesis by (simp add: get_genre_year_def Let_def)
qed

text \<open>
  C7. The route is meant to list the stored movies of the genre whose \<open>year\<close>, a number,
  is the requested year. The query compares the field with the string of the path, so a
  movie stored with the number 1995 is not found by \<open>/movies/genres/Drama/year/1995\<close>:
  the answer is 404.
\<close>

theorem genre_year_number_not_found:
  "map_of heat ''year'' = Some (JNum (Fin 1995))
 \<and> eq_match (JStr ''Drama'') (map_of heat ''genres'')
 \<and> get_genre_year 2024 store1 ''Drama'' ''1995'' = Send 404 (Error NoMovieMatches)"
  by (simp add: example_defs get_genre_year_def isLetters_def isAlpha_def isNumeric_def
        isDigit_def parseInt_def decimal_def digit_val_def round_double_simps num_def js_gt_def
        distinct_field_def field_values_def
        js_includes_def find_genre_year_def Let_def)

theorem genre_year_number_not_found_witness:
  "status_of (get_genre_year 2024 store1 ''Drama'' ''1995'') = 404"
  using genre_year_number_not_found by simp

section \<open>Properties of the user routes\<close>

text \<open>A name of white space only, in ASCII or not, is blank; a name with a letter is not.\<close>

lemma blank_examples:
  "blank ''  ''"
  "blank [CHR 0xC2, CHR 0xA0]"
  "blank [CHR 0x20, CHR 0xE2, CHR 0x80, CHR 0xA8, CHR 0x09]"
  "blank [CHR 0xEF, CHR 0xBB, CHR 0xBF, CHR 0xE3, CHR 0x80, CHR 0x80]"
  "\<not> blank ''Bob''"
  "\<not> blank [CHR 0xC3, CHR 0xA3]"
  by (simp_all add: isSpace_def isSpace2_def isSpace3_def)

lemma validateUser_blank_name:
  assumes "map_of user ''name'' = Some (JStr [CHR 0xC2, CHR 0xA0])"
  shows "NameInvalid \<in> set (validateUser ms user)"
  using assms by (simp add: validateUser_def Let_def str_of_def isSpace_def isSpace2_def)

subsection \<open>Fields of a document\<close>

lemma map_of_setField:
  "map_of (setField k v d) k' = (if k' = k then Some v else map_of d k')"
  by (induction d) auto

lemma map_of_set_fields:
  "map_of (set_fields body d) k =
     (case map_of (rev body) k of Some v \<Rightarrow> Some v | None \<Rightarrow> map_of d k)"
  unfolding set_fields_def
  by (induction body arbitrary: d)
     (auto simp: map_of_setField map_add_def split: option.splits prod.splits)

lemma map_of_rev_None: "map_of body k = None \<Longrightarrow> map_of (rev body) k = None"
  by (simp add: map_of_eq_None_iff)

lemma map_of_rev_distinct:
  assumes "distinct (map fst body)"
  shows "map_of (rev body) k = map_of body k"
proof -
  have "map_of (rev body) k = Some y \<longleftrightarrow> map_of body k = Some y" for y
    using assms by (simp add: map_of_eq_Some_iff rev_map [symmetric])
  then show ?thesis by (cases "map_of body k") (auto simp: map_of_rev_None)
qed

lemma fst_setField: "fst ` set (setField k v d) = insert k (fst ` set d)"
  by (induction d) auto

lemma distinct_setField: "distinct (map fst d) \<Longrightarrow> distinct (map fst (setField k v d))"
  by (induction d) (auto simp: fst_setField [simplified])

lemma updateOne_set_preserves:
  "map_of body k = None \<Longrightarrow>
     map (\<lambda>d. map_of d k) (updateOne_set v body ds) = map (\<lambda>d. map_of d k) ds"
  by (induction ds) (auto simp: map_of_set_fields map_of_rev_None)

lemma findOne_updateOne_set:
  "findOne_id coll v = Some d \<Longrightarrow> map_of body ''_id'' = None \<Longrightarrow>
     findOne_id (updateOne_set v body coll) v = Some (set_fields body d)"
  by (induction coll) (auto simp: findOne_id_def map_of_set_fields map_of_rev_None)

lemma map_of_picked:
  "map_of (concat (map (\<lambda>f. case m f of None \<Rightarrow> [] | Some x \<Rightarrow> [(f, x)]) fs)) k =
     (if k \<in> set fs then m k else None)"
  by (induction fs) (auto split: option.splits)

lemma fst_picked:
  "map fst (concat (map (\<lambda>f. case m f of None \<Rightarrow> [] | Some x \<Rightarrow> [(f, x)]) fs)) =
     filter (\<lambda>f. m f \<noteq> None) fs"
  by (induction fs) (auto split: option.splits)

lemma filterFields_lookup:
  "filterFields allowed v = Inr body \<Longrightarrow>
     map_of body k = (if k \<in> set allowed then getProp v k else None)"
  by (auto simp: filterFields_def getProp_def map_of_picked split: jsval.splits if_splits)

lemma filterFields_distinct:
  "filterFields allowed v = Inr body \<Longrightarrow> distinct allowed \<Longrightarrow> distinct (map fst body)"
  by (auto simp: filterFields_def fst_picked split: jsval.splits if_splits)

subsection \<open>Creation\<close>

text \<open>
  What the loop of \<open>POST /users\<close> returns when nothing throws: one document per element
  of the body, each with \<open>movies\<close> an array and \<open>num_ratings\<close> its length. A user whose
  \<open>movies\<close> is truthy and not an array makes the loop throw.
\<close>

lemma addTimestampAndDate_array:
  "addTimestampAndDate clk m = Inr ms \<Longrightarrow> \<exists>xs. m = JArr xs \<and> length ms = length xs"
  by (auto simp: addTimestampAndDate_def Let_def split: jsval.splits)

lemma stampUser_counts:
  "stampUser clk user = Inr user' \<Longrightarrow>
     \<exists>ms. map_of user' ''movies'' = Some (JArr ms)
        \<and> map_of user' ''num_ratings'' = Some (JNum (num (length ms)))"
  by (auto simp: stampUser_def map_of_setField split: option.splits if_splits sum.splits)

lemma users_loop_counts:
  "users_loop clk ms i us = Inr (errorsArray, docs) \<Longrightarrow>
     length docs = length us
   \<and> (\<forall>d\<in>set docs. \<exists>rs. map_of d ''movies'' = Some (JArr rs)
        \<and> map_of d ''num_ratings'' = Some (JNum (num (length rs))))"
  by (induction us arbitrary: i errorsArray docs)
     (auto simp: Let_def split: sum.splits if_splits dest: stampUser_counts)

lemma users_loop_non_array:
  assumes "u \<in> set us" and "filterValidFields_user u = Inr user"
    and "map_of user ''movies'' = Some m" and "truthy (Some m)" and "\<not> isArray (Some m)"
  shows "\<exists>e. users_loop clk ms i us = Inl e"
  using assms(1)
proof (induction us arbitrary: i)
  case Nil
  then show ?case by simp
next
  case (Cons a us)
  have st: "\<exists>e. stampUser clk user = Inl e"
    using assms(3-5)
    by (auto simp: stampUser_def addTimestampAndDate_def Let_def isArray_def split: jsval.splits)
  show ?case
  proof (cases "a = u")
    case True
    with st assms(2) show ?thesis by (auto simp: Let_def)
  next
    case False
    with Cons have "\<exists>e. users_loop clk ms (Suc i) us = Inl e" by auto
    then show ?thesis by (auto simp: Let_def split: sum.splits)
  qed
qed

lemma post_users_non_array_500:
  assumes "u \<in> set us" and "filterValidFields_user u = Inr user"
    and "map_of user ''movies'' = Some m" and "truthy (Some m)" and "\<not> isArray (Some m)"
  shows "status_of (fst (post_users clk gen s (JArr us))) = 500
       \<and> snd (post_users clk gen s (JArr us)) = s"
  using users_loop_non_array [OF assms, of clk "db_movies s" 0]
  by (auto simp: post_users_def)

lemma insertMany_docs:
  assumes "insertMany gen coll docs = Inr (res, coll')"
  shows "\<exists>new. coll' = coll @ new \<and> length new = length docs \<and> docs \<noteq> []
           \<and> res = Inserted (length docs)
           \<and> (\<forall>d'\<in>set new. \<exists>d\<in>set docs. \<exists>oid. d' = (''_id'', JOid oid) # d)"
proof -
  let ?new = "map (\<lambda>(i, d). (''_id'', JOid (gen i)) # d) (zip [0..<length docs] docs)"
  from assms have ne: "docs \<noteq> []" and r: "res = Inserted (length docs)"
    and c: "coll' = coll @ ?new"
    by (auto simp: insertMany_def split: if_splits)
  have "\<forall>d'\<in>set ?new. \<exists>d\<in>set docs. \<exists>oid. d' = (''_id'', JOid oid) # d"
    by (auto dest: set_zip_rightD)
  with ne r c show ?thesis by (intro exI [of _ ?new]) simp
qed

text \<open>
  The store after \<open>POST /users\<close>: unchanged unless the answer is 201, and then extended
  by one document per element of the body, each with \<open>num_ratings\<close> the length of its
  \<open>movies\<close>.
\<close>

lemma post_users_all_or_nothing:
  assumes "post_users clk gen s body = (r, s')"
  shows "s' = s \<and> status_of r \<noteq> 201
   \<or> (\<exists>us new. body = JArr us \<and> length new = length us \<and> us \<noteq> []
        \<and> r = Send 201 (Result UsersAdded (Inserted (length us)))
        \<and> s' = s\<lparr>db_users := db_users s @ new\<rparr>
        \<and> (\<forall>d\<in>set new. \<exists>rs. map_of d ''movies'' = Some (JArr rs)
              \<and> map_of d ''num_ratings'' = Some (JNum (num (length rs)))))"
proof (cases "\<exists>us. body = JArr us")
  case False
  with assms show ?thesis by (cases body) (auto simp: post_users_def)
next
  case True
  then obtain us where b: "body = JArr us" ..
  show ?thesis
  proof (cases "users_loop clk (db_movies s) 0 us")
    case (Inl e)
    with assms b show ?thesis by (auto simp: post_users_def)
  next
    case (Inr p)
    obtain errorsArray docs where p: "p = (errorsArray, docs)" by (cases p)
    show ?thesis
    proof (cases "errorsArray = []")
      case False
      with assms b Inr p show ?thesis by (auto simp: post_users_def)
    next
      case True
      note l = Inr [unfolded p True]
      show ?thesis
      proof (cases "insertMany gen (db_users s) docs")
        case (Inl e)
        with assms b l show ?thesis by (auto simp: post_users_def)
      next
        case (Inr q)
        obtain res coll where q: "q = (res, coll)" by (cases q)
        note i = Inr [unfolded q]
        from assms b l i have r: "r = Send 201 (Result UsersAdded res)"
          and s': "s' = s\<lparr>db_users := coll\<rparr>"
          by (auto simp: post_users_def)
        from users_loop_counts [OF l] have len: "length docs = length us"
          and cnt: "\<forall>d\<in>set docs. \<exists>rs. map_of d ''movies'' = Some (JArr rs)
              \<and> map_of d ''num_ratings'' = Some (JNum (num (length rs)))" by auto
        from insertMany_docs [OF i] obtain new where c: "coll = db_users s @ new"
          and ln: "length new = length docs" and ne: "docs \<noteq> []"
          and res: "res = Inserted (length docs)"
          and new: "\<forall>d'\<in>set new. \<exists>d\<in>set docs. \<exists>oid. d' = (''_id'', JOid oid) # d" by blast
        have "\<forall>d\<in>set new. \<exists>rs. map_of d ''movies'' = Some (JArr rs)
                \<and> map_of d ''num_ratings'' = Some (JNum (num (length rs)))"
        proof
          fix d' assume "d' \<in> set new"
          with new obtain d oid where d: "d \<in> set docs"
            and d': "d' = (''_id'', JOid oid) # d" by blast
          from cnt d obtain rs where "map_of d ''movies'' = Some (JArr rs)"
            and "map_of d ''num_ratings'' = Some (JNum (num (length rs)))" by blast
          with d' show "\<exists>rs. map_of d' ''movies'' = Some (JArr rs)
                \<and> map_of d' ''num_ratings'' = Some (JNum (num (length rs)))" by simp
        qed
        moreover from ne len have "us \<noteq> []" by auto
        ultimately show ?thesis using b len ln res r s' c by auto
      qed
    qed
  qed
qed

subsection \<open>Update\<close>

lemma validateUserToUpdate_movies:
  "validateUserToUpdate ms body = [] \<Longrightarrow> map_of body ''movies'' = Some m \<Longrightarrow> truthy (Some m)
     \<Longrightarrow> \<exists>xs. m = JArr xs"
  by (auto simp: validateUserToUpdate_def Let_def split: jsval.splits if_splits)

lemma stampUpdate_counts:
  assumes "stampUpdate clk body = Inr body'" and "map_of body ''movies'' = Some (JArr xs)"
  shows "\<exists>rs. map_of body' ''movies'' = Some (JArr rs)
           \<and> map_of body' ''num_ratings'' = Some (JNum (num (length rs)))"
  using assms
  by (auto simp: stampUpdate_def js_length_def addTimestampAndDate_def Let_def obj_lit_def
        set_fields_def map_of_setField split: if_splits)

lemma stampUpdate_keys:
  "stampUpdate clk body = Inr body' \<Longrightarrow> distinct (map fst body) \<Longrightarrow>
     distinct (map fst body') \<and> (map_of body ''_id'' = None \<longrightarrow> map_of body' ''_id'' = None)"
  by (auto simp: stampUpdate_def js_length_def addTimestampAndDate_def Let_def obj_lit_def
        set_fields_def map_of_setField distinct_setField
        split: if_splits option.splits jsval.splits sum.splits)

lemma stampUpdate_without_movies:
  "map_of body ''movies'' = None \<Longrightarrow> stampUpdate clk body = Inr body"
  by (simp add: stampUpdate_def)

lemma put_user_200:
  assumes "put_user clk s user_id req_body = (Send 200 p, s')"
  shows "\<exists>uid user body body'. checkId user_id = Some uid
      \<and> findOne_id (db_users s) uid = Some user
      \<and> filterValidFields_user req_body = Inr body
      \<and> validateUserToUpdate (db_movies s) body = []
      \<and> stampUpdate clk body = Inr body'
      \<and> s' = s\<lparr>db_users := updateOne_set uid body' (db_users s)\<rparr>"
  using assms
  by (simp add: put_user_def Let_def split: option.splits sum.splits if_splits)

lemma put_user_keeps_store:
  assumes "put_user clk s user_id req_body = (r, s')" and "status_of r \<noteq> 200"
  shows "s' = s"
  using assms
  by (auto simp: put_user_def Let_def split: option.splits sum.splits if_splits)

text \<open>
  An update whose body has no \<open>movies\<close> leaves the \<open>movies\<close> and the \<open>num_ratings\<close> of
  every user as they were; a successful update whose \<open>movies\<close> is truthy leaves the user
  with an array and its length.
\<close>

lemma put_user_without_movies:
  assumes "put_user clk s user_id req_body = (r, s')"
    and "getProp req_body ''movies'' = None"
  shows "map (\<lambda>d. map_of d ''movies'') (db_users s') = map (\<lambda>d. map_of d ''movies'') (db_users s)
       \<and> map (\<lambda>d. map_of d ''num_ratings'') (db_users s')
           = map (\<lambda>d. map_of d ''num_ratings'') (db_users s)"
proof (cases "status_of r = 200")
  case False
  with assms(1) have "s' = s" by (rule put_user_keeps_store)
  then show ?thesis by simp
next
  case True
  then obtain p where "r = Send 200 p" by (cases r) auto
  with put_user_200 assms(1) obtain uid body body' where
    f: "filterValidFields_user req_body = Inr body" and st: "stampUpdate clk body = Inr body'"
    and s': "s' = s\<lparr>db_users := updateOne_set uid body' (db_users s)\<rparr>" by blast
  from f assms(2) have m: "map_of body ''movies'' = None" and n: "map_of body ''num_ratings'' = None"
    by (simp_all add: filterValidFields_user_def filterFields_lookup)
  from m st have "body' = body" by (simp add: stampUpdate_without_movies)
  with m n s' show ?thesis by (simp add: updateOne_set_preserves)
qed

lemma put_user_with_movies:
  assumes "put_user clk s user_id req_body = (Send 200 p, s')"
    and "truthy (getProp req_body ''movies'')"
  shows "\<exists>uid d rs. checkId user_id = Some uid \<and> findOne_id (db_users s') uid = Some d
       \<and> map_of d ''movies'' = Some (JArr rs)
       \<and> map_of d ''num_ratings'' = Some (JNum (num (length rs)))"
proof -
  from put_user_200 [OF assms(1)] obtain uid user body body' where
    c: "checkId user_id = Some uid" and u: "findOne_id (db_users s) uid = Some user"
    and f: "filterValidFields_user req_body = Inr body"
    and v: "validateUserToUpdate (db_movies s) body = []"
    and st: "stampUpdate clk body = Inr body'"
    and s': "s' = s\<lparr>db_users := updateOne_set uid body' (db_users s)\<rparr>" by blast
  from f have mb: "map_of body ''movies'' = getProp req_body ''movies''"
    and ib: "map_of body ''_id'' = None" and db: "distinct (map fst body)"
    by (simp_all add: filterValidFields_user_def filterFields_lookup filterFields_distinct)
  from assms(2) obtain m where m: "getProp req_body ''movies'' = Some m"
    by (cases "getProp req_body ''movies''") auto
  with v mb assms(2) obtain xs where xs: "map_of body ''movies'' = Some (JArr xs)"
    using validateUserToUpdate_movies by fastforce
  from stampUpdate_counts [OF st xs] obtain rs where
    rs: "map_of body' ''movies'' = Some (JArr rs)"
        "map_of body' ''num_ratings'' = Some (JNum (num (length rs)))" by blast
  from stampUpdate_keys [OF st db] ib have ib': "map_of body' ''_id'' = None"
    and db': "distinct (map fst body')" by simp_all
  from findOne_updateOne_set [OF u ib'] s'
  have "findOne_id (db_users s') uid = Some (set_fields body' user)" by simp
  moreover from rs db' have "map_of (set_fields body' user) ''movies'' = Some (JArr rs)"
    "map_of (set_fields body' user) ''num_ratings'' = Some (JNum (num (length rs)))"
    by (simp_all add: map_of_set_fields map_of_rev_distinct)
  ultimately show ?thesis using c by blast
qed

text \<open>
  C2. After a successful write \<open>num_ratings\<close> is meant to be the length of the stored
  \<open>movies\<close>. An update whose body is \<open>{"movies": null}\<close> passes validation, is not
  counted, and is stored as it is: the user is left with \<open>movies: null\<close> and the old
  \<open>num_ratings\<close> of 2.
\<close>

theorem put_user_null_movies:
  "put_user clk1 store1 ''1'' (JObj [(''movies'', JNull)]) =
     (Send 200 (Result UserUpdated (Updated 1)),
      store1\<lparr>db_users :=
        [[(''_id'', JNum (Fin 1)), (''name'', JStr ''Ann''), (''gender'', JStr ''F''),
          (''age'', JNum (Fin 30)), (''occupation'', JStr ''pilot''),
          (''movies'', JNull), (''num_ratings'', JNum (Fin 2))]]\<rparr>)"
  by (simp add: example_defs put_user_def checkId_def isNumeric_def isDigit_def parseInt_def
        decimal_def round_double_simps
        digit_val_def num_def findOne_id_def isArray_def filterValidFields_user_def
        filterFields_def validateUserToUpdate_def Let_def stampUpdate_def set_fields_def)

text \<open>
  C3. A batch with a validation error is meant to be answered with 400 and the list of
  errors. A user whose \<open>movies\<close> is a string has the validation error "movies must be an
  array", but the loop stamps the ratings before it looks at the errors, and the request
  fails with 500. Nothing is inserted.
\<close>

theorem post_users_string_movies_500:
  "validateUser (db_movies store1) [(''name'', JStr ''Bob''), (''gender'', JStr ''M''),
       (''age'', JNum (Fin 40)), (''occupation'', JStr ''cook''), (''movies'', JStr ''abc'')]
     = [MoviesNotArray]
 \<and> post_users clk1 gen store1 (JArr [bob]) =
     (Send 500 (Error (Failed (TypeError ''movies.map is not a function''))), store1)"
  by (simp add: example_defs post_users_def filterValidFields_user_def filterFields_def
        validateUser_def Let_def stampUser_def addTimestampAndDate_def str_of_def
        num_of_def js_le_def num_def isSpace_def isSpace2_def isSpace3_def)

theorem post_users_string_movies_500_witness:
  "status_of (fst (post_users clk1 fresh_oid store1 (JArr [bob]))) = 500
 \<and> snd (post_users clk1 fresh_oid store1 (JArr [bob])) = store1"
  using post_users_string_movies_500 [of fresh_oid] by simp

subsection \<open>The five best ratings\<close>

text \<open>
  The order of \<open>sort\<close> is total and transitive, so the insertion sort sorts. Every
  document that the pipeline of \<open>GET /users/id/:user_id\<close> returns is an identifier with
  at most five ratings in non-increasing order, and has no other field.
\<close>

lemma str_le_total: "str_le a b \<or> str_le b a"
  by (induction a b rule: str_le.induct) (auto simp: linorder_not_less order_le_less)

lemma str_le_trans: "str_le a b \<Longrightarrow> str_le b c \<Longrightarrow> str_le a c"
proof (induction a b arbitrary: c rule: str_le.induct)
  case (1 ys)
  then show ?case by simp
next
  case (2 x xs)
  then show ?case by simp
next
  case (3 x xs y ys)
  then show ?case by (cases c) (auto split: if_splits)
qed

lemma bson_num_le_total: "bson_num_le a b \<or> bson_num_le b a"
  by (cases a; cases b) auto

lemma bson_num_le_trans: "bson_num_le a b \<Longrightarrow> bson_num_le b c \<Longrightarrow> bson_num_le a c"
  by (cases a; cases b; cases c) auto

lemma bson_le_total: "bson_le a b \<or> bson_le b a"
proof (cases a)
  case None
  then show ?thesis by (cases b) auto
next
  case (Some x)
  show ?thesis
  proof (cases b)
    case None
    with Some show ?thesis by (cases x) auto
  next
    case (Some y)
    with \<open>a = Some x\<close> show ?thesis
      using str_le_total bson_num_le_total by (cases x; cases y) auto
  qed
qed


lemma bson_rank_mono: "bson_le a b \<Longrightarrow> bson_rank a \<le> bson_rank b"
  by (induction a b rule: bson_le.induct) auto

lemma bson_le_trans:
  assumes "bson_le a b" and "bson_le b c"
  shows "bson_le a c"
proof (cases "bson_rank a = bson_rank b \<and> bson_rank b = bson_rank c")
  case False
  with bson_rank_mono [OF assms(1)] bson_rank_mono [OF assms(2)]
  have "bson_rank a < bson_rank c" by auto
  then show ?thesis by (induction a c rule: bson_le.induct) auto
next
  case True
  with assms show ?thesis
    by (cases a rule: bson_rank.cases; cases b rule: bson_rank.cases;
        cases c rule: bson_rank.cases)
       (auto dest: str_le_trans bson_num_le_trans)
qed

lemma insort_by_set: "set (insort_by le f x xs) = insert x (set xs)"
  by (induction xs) auto

lemma insort_by_sorted:
  assumes total: "\<And>a b. le a b \<or> le b a" and trans: "\<And>a b c. le a b \<Longrightarrow> le b c \<Longrightarrow> le a c"
  shows "sorted_wrt (\<lambda>x y. le (f x) (f y)) xs \<Longrightarrow>
         sorted_wrt (\<lambda>x y. le (f x) (f y)) (insort_by le f x xs)"
proof (induction xs)
  case Nil
  then show ?case by simp
next
  case (Cons y ys)
  show ?case
  proof (cases "le (f x) (f y)")
    case True
    with Cons.prems trans show ?thesis by auto
  next
    case False
    with total have "le (f y) (f x)" by blast
    with False Cons show ?thesis by (auto simp: insort_by_set)
  qed
qed

lemma sort_by_sorted:
  assumes "\<And>a b. le a b \<or> le b a" and "\<And>a b c. le a b \<Longrightarrow> le b c \<Longrightarrow> le a c"
  shows "sorted_wrt (\<lambda>x y. le (f x) (f y)) (sort_by le f xs)"
  unfolding sort_by_def
  by (induction xs) (auto intro: insort_by_sorted [OF assms])

lemma sort_desc_sorted:
  "sorted_wrt (\<lambda>x y. bson_le (f y) (f x)) (sort_desc f ds)"
  unfolding sort_desc_def
  by (rule sort_by_sorted) (use bson_le_total bson_le_trans in blast)+

lemma path2_getProp:
  "path2 a b d = (case map_of d a of Some m \<Rightarrow> getProp m b | None \<Rightarrow> None)"
  by (simp add: path2_def getProp_def split: option.splits jsval.splits)

lemma length_pushed:
  "length (concat (map (\<lambda>d. if c d then field_one src d else []) ds)) \<le> length ds"
  by (induction ds) (auto simp: field_one_def split: option.splits)

lemma pushed_sorted:
  assumes "sorted_wrt (\<lambda>x y. bson_le (path2 src b y) (path2 src b x)) ds"
  shows "sorted_wrt (\<lambda>x y. bson_le (getProp y b) (getProp x b))
           (concat (map (\<lambda>d. if c d then field_one src d else []) ds))"
  using assms
proof (induction ds)
  case Nil
  then show ?case by simp
next
  case (Cons d ds)
  then show ?case
    by (auto simp: field_one_def path2_getProp sorted_wrt_append split: option.splits if_splits)
qed

lemma top_ratings_sorted:
  assumes "d \<in> set (top_ratings userId users)"
  shows "\<exists>k rs. d = [(''_id'', k), (''topMovies'', JArr rs)] \<and> length rs \<le> 5
           \<and> sorted_wrt (\<lambda>x y. bson_le (getProp y ''rating'') (getProp x ''rating'')) rs"
proof -
  let ?sorted = "sort_desc (path2 ''movies'' ''rating'') (unwind ''movies'' (match_id userId users))"
  let ?ds = "take 5 ?sorted"
  from assms obtain k where d:
    "d = project [''_id'', ''name'', ''gender'', ''age'', ''occupation'', ''num_ratings'', ''topMovies'']
       [(''_id'', k), (''topMovies'', JArr (concat (map (\<lambda>d. if id_of d = k then field_one ''movies'' d else []) ?ds)))]"
    by (auto simp: top_ratings_def group_push_def)
  have len: "length (concat (map (\<lambda>d. if id_of d = k then field_one ''movies'' d else []) ?ds)) \<le> 5"
    using length_pushed [of "\<lambda>d. id_of d = k" "''movies''" ?ds] by simp
  have "sorted_wrt (\<lambda>x y. bson_le (path2 ''movies'' ''rating'' y) (path2 ''movies'' ''rating'' x)) ?ds"
    using sort_desc_sorted [of "path2 ''movies'' ''rating''"] by (rule sorted_wrt_take)
  then have "sorted_wrt (\<lambda>x y. bson_le (getProp y ''rating'') (getProp x ''rating''))
     (concat (map (\<lambda>d. if id_of d = k then field_one ''movies'' d else []) ?ds))"
    by (rule pushed_sorted)
  with d len show ?thesis by (simp add: project_def)
qed

text \<open>
  C4. The answer for a user with ratings is meant to carry name, gender, age, occupation
  and \<open>num_ratings\<close> beside \<open>topMovies\<close>. The group stage keeps the identifier and the
  pushed ratings only, so the projection after it finds none of them: for the user \<open>ann\<close>
  the answer has \<open>_id\<close> and \<open>topMovies\<close>, the ratings in descending order, and nothing else.
\<close>

theorem get_user_drops_identity_fields:
  "get_user store1 ''1'' =
     Send 200 (Json (JArr [JObj
       [(''_id'', JNum (Fin 1)),
        (''topMovies'',
         JArr [JObj [(''movieid'', JNum (Fin 2)), (''rating'', JNum (Fin 5)),
                     (''timestamp'', JNum (Fin 1700000000)),
                     (''date'', JStr ''2023-11-14T22:13:20.000Z'')],
               JObj [(''movieid'', JNum (Fin 1)), (''rating'', JNum (Fin 3)),
                     (''timestamp'', JNum (Fin 1700000000)),
                     (''date'', JStr ''2023-11-14T22:13:20.000Z'')]])]]))"
  by (simp add: example_defs get_user_def checkId_def isNumeric_def isDigit_def parseInt_def
        decimal_def round_double_simps
        digit_val_def num_def findOne_id_def js_length_def top_ratings_def match_id_def
        unwind_def sort_desc_def sort_by_def path2_def group_push_def id_of_def field_one_def
        project_def)

section \<open>Properties of the identifier resolver\<close>

lemma checkId_zero: "checkId ''0'' = Some (JNum (num 0))"
  by (simp add: checkId_def isNumeric_def isDigit_def parseInt_def decimal_def digit_val_def
        round_double_simps num_def)

text \<open>
  C9. The segment \<open>0\<close> resolves to the number 0, which is not \<open>null\<close> but is falsy. The
  handlers that compare with \<open>null\<close> (GET and DELETE of a user or a movie) do not answer
  400: they go on to the lookup of the document whose identifier is 0. When there is none
  they answer 404. When there is one, DELETE removes it and answers 200, GET of a movie
  answers 200 with the movie and its average rating, and GET of a user answers as for any
  other user: 500 when the length of its \<open>movies\<close> cannot be read, 200 with the user
  when that length is 0, 200 with the five best ratings otherwise. The two PUT handlers
  test falsiness and answer 400, whatever the store holds.
\<close>

theorem id_zero_get_delete_vs_put:
  "checkId ''0'' = Some (JNum (num 0))
 \<and> \<not> truthy (checkId ''0'')
 \<and> status_of (get_user s ''0'') \<noteq> 400
 \<and> status_of (fst (delete_user s ''0'')) \<noteq> 400
 \<and> status_of (get_movie s ''0'') \<noteq> 400
 \<and> status_of (fst (delete_movie s ''0'')) \<noteq> 400
 \<and> (findOne_id (db_users s) (JNum (num 0)) = None \<longrightarrow>
       get_user s ''0'' = Send 404 (Error UserNotFound)
     \<and> delete_user s ''0'' = (Send 404 (Error UserNotExist), s))
 \<and> (findOne_id (db_movies s) (JNum (num 0)) = None \<longrightarrow>
       get_movie s ''0'' = Send 404 (Error MovieNotFound)
     \<and> delete_movie s ''0'' = (Send 404 (Error MovieNotExists), s))
 \<and> (findOne_id (db_users s) (JNum (num 0)) = Some user \<longrightarrow>
       delete_user s ''0'' =
         (Send 200 (Result UserDeleted (Deleted 1)),
          s\<lparr>db_users := deleteOne (JNum (num 0)) (db_users s)\<rparr>)
     \<and> (js_length (map_of user ''movies'') = Inl e \<longrightarrow>
          get_user s ''0'' = Send 500 (Error (Failed e)))
     \<and> (js_length (map_of user ''movies'') = Inr (Some (JNum (num 0))) \<longrightarrow>
          get_user s ''0'' =
            Send 200 (Json (JObj (obj_lit
              [(''_id'', map_of user ''_id''), (''name'', map_of user ''name''),
               (''gender'', map_of user ''gender''), (''age'', map_of user ''age''),
               (''occupation'', map_of user ''occupation''),
               (''num_ratings'', map_of user ''num_ratings''),
               (''topMovies'', Some (JStr no_ratings_text))]))))
     \<and> (js_length (map_of user ''movies'') = Inr len \<and> len \<noteq> Some (JNum (num 0)) \<longrightarrow>
          get_user s ''0'' =
            Send 200 (Json (JArr (map JObj (top_ratings (JNum (num 0)) (db_users s)))))))
 \<and> (findOne_id (db_movies s) (JNum (num 0)) = Some movie \<longrightarrow>
       delete_movie s ''0'' =
         (Send 200 (Result MovieDeleted (Deleted 1)),
          s\<lparr>db_movies := deleteOne (JNum (num 0)) (db_movies s)\<rparr>)
     \<and> (\<exists>v. get_movie s ''0'' =
               Send 200 (Json (JObj (setField ''averageRating'' v movie)))))
 \<and> put_user clk s ''0'' body = (Send 400 (Error InvalidUserId), s)
 \<and> put_movie s ''0'' body = (Send 400 (Error InvalidMovieId), s)"
proof -
  have avg: "\<exists>v. set_fields (obj_lit [(''averageRating'', map_of g ''averageRating'')]) movie
                 = setField ''averageRating'' v movie"
    if "group_avg ''averageRating'' f ds = g # gs" for f ds g gs
    using that by (auto simp: group_avg_def obj_lit_def set_fields_def Let_def split: if_splits)
  have movie: "\<exists>v. get_movie s ''0'' = Send 200 (Json (JObj (setField ''averageRating'' v movie)))"
    if "findOne_id (db_movies s) (JNum (num 0)) = Some movie"
    using that avg
    by (simp add: checkId_zero get_movie_def Let_def split: list.splits) blast
  have rest: "checkId ''0'' = Some (JNum (num 0))
     \<and> \<not> truthy (checkId ''0'')
     \<and> status_of (get_user s ''0'') \<noteq> 400
     \<and> status_of (fst (delete_user s ''0'')) \<noteq> 400
     \<and> status_of (get_movie s ''0'') \<noteq> 400
     \<and> status_of (fst (delete_movie s ''0'')) \<noteq> 400"
    by (auto simp: checkId_zero get_user_def delete_user_def get_movie_def delete_movie_def
          num_def Let_def split: option.splits sum.splits list.splits)
  have none: "(findOne_id (db_users s) (JNum (num 0)) = None \<longrightarrow>
         get_user s ''0'' = Send 404 (Error UserNotFound)
       \<and> delete_user s ''0'' = (Send 404 (Error UserNotExist), s))
     \<and> (findOne_id (db_movies s) (JNum (num 0)) = None \<longrightarrow>
         get_movie s ''0'' = Send 404 (Error MovieNotFound)
       \<and> delete_movie s ''0'' = (Send 404 (Error MovieNotExists), s))"
    by (simp add: checkId_zero get_user_def delete_user_def get_movie_def delete_movie_def)
  have user: "findOne_id (db_users s) (JNum (num 0)) = Some user \<longrightarrow>
       delete_user s ''0'' =
         (Send 200 (Result UserDeleted (Deleted 1)),
          s\<lparr>db_users := deleteOne (JNum (num 0)) (db_users s)\<rparr>)
     \<and> (js_length (map_of user ''movies'') = Inl e \<longrightarrow>
          get_user s ''0'' = Send 500 (Error (Failed e)))
     \<and> (js_length (map_of user ''movies'') = Inr (Some (JNum (num 0))) \<longrightarrow>
          get_user s ''0'' =
            Send 200 (Json (JObj (obj_lit
              [(''_id'', map_of user ''_id''), (''name'', map_of user ''name''),
               (''gender'', map_of user ''gender''), (''age'', map_of user ''age''),
               (''occupation'', map_of user ''occupation''),
               (''num_ratings'', map_of user ''num_ratings''),
               (''topMovies'', Some (JStr no_ratings_text))]))))
     \<and> (js_length (map_of user ''movies'') = Inr len \<and> len \<noteq> Some (JNum (num 0)) \<longrightarrow>
          get_user s ''0'' =
            Send 200 (Json (JArr (map JObj (top_ratings (JNum (num 0)) (db_users s))))))"
    by (simp add: checkId_zero get_user_def delete_user_def)
  have del: "findOne_id (db_movies s) (JNum (num 0)) = Some movie \<longrightarrow>
       delete_movie s ''0'' =
         (Send 200 (Result MovieDeleted (Deleted 1)),
          s\<lparr>db_movies := deleteOne (JNum (num 0)) (db_movies s)\<rparr>)"
    by (simp add: checkId_zero delete_movie_def)
  have put: "put_user clk s ''0'' body = (Send 400 (Error InvalidUserId), s)
     \<and> put_movie s ''0'' body = (Send 400 (Error InvalidMovieId), s)"
    by (simp add: checkId_zero put_user_def put_movie_def num_def Let_def)
  from rest none user del movie put show ?thesis by blast
qed

theorem id_zero_get_delete_vs_put_witness:
  "get_user store1 ''0'' = Send 404 (Error UserNotFound)
 \<and> delete_user store1 ''0'' = (Send 404 (Error UserNotExist), store1)
 \<and> get_movie store1 ''0'' = Send 404 (Error MovieNotFound)
 \<and> delete_movie store1 ''0'' = (Send 404 (Error MovieNotExists), store1)
 \<and> put_user clk1 store1 ''0'' (JObj [(''name'', JStr ''Eve'')])
     = (Send 400 (Error InvalidUserId), store1)
 \<and> put_movie store1 ''0'' (JObj [(''title'', JStr ''Ikiru'')])
     = (Send 400 (Error InvalidMovieId), store1)
 \<and> get_user store0 ''0'' =
     Send 200 (Json (JObj
       [(''_id'', JNum (Fin 0)), (''name'', JStr ''Zed''), (''gender'', JStr ''M''),
        (''age'', JNum (Fin 50)), (''occupation'', JStr ''clerk''),
        (''num_ratings'', JNum (Fin 0)), (''topMovies'', JStr no_ratings_text)]))
 \<and> delete_user store0 ''0'' =
     (Send 200 (Result UserDeleted (Deleted 1)), store0\<lparr>db_users := [ann]\<rparr>)
 \<and> (\<exists>v. get_movie store0 ''0'' = Send 200 (Json (JObj (setField ''averageRating'' v zulu))))
 \<and> delete_movie store0 ''0'' =
     (Send 200 (Result MovieDeleted (Deleted 1)), store0\<lparr>db_movies := [heat]\<rparr>)
 \<and> put_user clk1 store0 ''0'' (JObj [(''name'', JStr ''Eve'')])
     = (Send 400 (Error InvalidUserId), store0)
 \<and> put_movie store0 ''0'' (JObj [(''title'', JStr ''Ikiru'')])
     = (Send 400 (Error InvalidMovieId), store0)"
  using id_zero_get_delete_vs_put [of store1 ann "TypeError []" None heat clk1
          "JObj [(''name'', JStr ''Eve'')]"]
        id_zero_get_delete_vs_put [of store1 ann "TypeError []" None heat clk1
          "JObj [(''title'', JStr ''Ikiru'')]"]
        id_zero_get_delete_vs_put [of store0 zed "TypeError []" None zulu clk1
          "JObj [(''name'', JStr ''Eve'')]"]
        id_zero_get_delete_vs_put [of store0 zed "TypeError []" None zulu clk1
          "JObj [(''title'', JStr ''Ikiru'')]"]
  by (simp add: example_defs store0_def zed_def zulu_def findOne_id_def num_def js_length_def
        obj_lit_def)

section \<open>Properties of the cinema routes\<close>

text \<open>
  C10. On an existing cinema, a body whose \<open>movies\<close> is the empty array is answered with
  404 "movies not found" and the store is left as it was: the loop finds nothing missing,
  and the count of the missing, 0, is the length of the list, 0.
\<close>

theorem put_cinema_empty_list:
  assumes "new_ObjectId id_cinema = Inr cinema_id"
    and "findOne_id (db_cinemas s) cinema_id = Some cinema"
    and "req_body \<noteq> JNull"
    and "getProp req_body ''movies'' = Some (JArr [])"
  shows "put_cinema s id_cinema req_body = (Send 404 (Error MoviesNotFound), s)"
  using assms by (simp add: put_cinema_def Let_def isArray_def arr_of_def)

theorem put_cinema_empty_list_witness:
  "put_cinema store1 ''65A1B2C3D4E5F60718293A4B'' (JObj [(''movies'', JArr [])])
     = (Send 404 (Error MoviesNotFound), store1)"
  using put_cinema_empty_list [of "''65A1B2C3D4E5F60718293A4B''"
          "JOid ''65a1b2c3d4e5f60718293a4b''" store1 odeon "JObj [(''movies'', JArr [])]"]
  by (simp add: new_ObjectId_def ObjectId_isValid_def isHex_def hex_lower_def store1_def
        odeon_def findOne_id_def getProp_def)

text \<open>
  C8. On each of the four geospatial routes, a coordinate that parses to 0 or to \<open>NaN\<close> is
  answered with 400 and the store is asked nothing; 0 and \<open>NaN\<close> get the same answer.
\<close>

theorem geo_zero_or_nan_is_400:
  "(pf lat \<in> {Fin 0, NaN} \<or> pf lng \<in> {Fin 0, NaN} \<longrightarrow>
      cinemas_near pf run lng lat = ([], Send 400 (Error LatLngRequired))
    \<and> cinemas_near_sum pf run lng lat = ([], Send 400 (Error LatLngRequired))
    \<and> cinemas_within pf run lng lat = ([], Send 400 (Error LatLngMustBeGiven)))
 \<and> (pf lat1 \<in> {Fin 0, NaN} \<or> pf lng1 \<in> {Fin 0, NaN}
      \<or> pf lat2 \<in> {Fin 0, NaN} \<or> pf lng2 \<in> {Fin 0, NaN} \<longrightarrow>
      cinemas_near_line pf run lng1 lat1 lng2 lat2 = ([], Send 400 (Error LatLngRequiredBoth)))"
  by (auto simp: cinemas_near_def cinemas_near_sum_def cinemas_within_def cinemas_near_line_def
        truthy_num_def Let_def)

theorem geo_zero_or_nan_is_400_witness:
  "cinemas_near parse_coord (\<lambda>q. [odeon]) ''9'' ''0'' = ([], Send 400 (Error LatLngRequired))
 \<and> cinemas_near_sum parse_coord (\<lambda>q. [odeon]) ''x'' ''38''
     = ([], Send 400 (Error LatLngRequired))
 \<and> cinemas_within parse_coord (\<lambda>q. [odeon]) ''0'' ''38''
     = ([], Send 400 (Error LatLngMustBeGiven))
 \<and> cinemas_near_line parse_coord (\<lambda>q. [odeon]) ''9'' ''38'' ''9'' ''0''
     = ([], Send 400 (Error LatLngRequiredBoth))"
  using geo_zero_or_nan_is_400 [of parse_coord "''0''" "''9''" "\<lambda>q. [odeon]"]
        geo_zero_or_nan_is_400 [of parse_coord "''38''" "''x''" "\<lambda>q. [odeon]"]
        geo_zero_or_nan_is_400 [of parse_coord "''38''" "''0''" "\<lambda>q. [odeon]"
          "''38''" "''9''" "''0''" "''9''"]
  by (simp add: parse_coord_def isNumeric_def isDigit_def parseInt_def decimal_def
        digit_val_def round_double_simps num_def)

end
